theory Spec2Isabelle
  imports
    Main
    "HOL-Library.Word"
    "HOL-Library.Monad_Syntax"
    "HOL-Library.Char_ord"
    "HOL-Library.List_Lexorder"
    "HOL-Library.Product_Lexorder"
begin

unbundle bit_operations_syntax

section \<open>Data model of \<^verbatim>\<open>AutoSchedule.cpp\<close>\<close>

text \<open>
  The C++ integer types are fixed-width words: \<^verbatim>\<open>int64_t\<close> and \<^verbatim>\<open>uint64_t\<close> are
  \<open>64 word\<close>, \<^verbatim>\<open>int\<close> is \<open>32 word\<close>; signed comparisons are \<open>\<le>s\<close> and \<open><s\<close>, and
  \<open>sint\<close> reads the two's complement value. An \<^verbatim>\<open>internal_assert\<close> or
  \<^verbatim>\<open>user_assert\<close> that fails, and a read through an invalid iterator or index, end the
  run: functions that can do so return an \<open>option\<close>, with \<open>None\<close> for the aborted run.
\<close>

type_synonym int64 = "64 word"
type_synonym int32 = "32 word"

text \<open>
  The fragment of the expression IR that the scheduler builds and inspects itself:
  integer literals (\<^verbatim>\<open>IntImm\<close>), variables, and the sums and differences that
  \<^verbatim>\<open>redundant_regions\<close> forms. Every other expression is produced and consumed by the
  bounds engine only.
\<close>

datatype Expr = IntImm int | Variable string | Add Expr Expr | Sub Expr Expr

fun is_IntImm :: "Expr \<Rightarrow> bool" where
  "is_IntImm (IntImm v) = True"
| "is_IntImm e = False"

record Interval =
  min_e :: Expr
  max_e :: Expr

type_synonym Box = "Interval list"

text \<open>\<^verbatim>\<open>struct Bound\<close>: a user estimate \<^verbatim>\<open>{var, min, extent}\<close> on one dimension.\<close>

record Bound =
  var_b :: string
  min_b :: Expr
  extent_b :: Expr

datatype ForType = Serial | Parallel | Vectorized | Unrolled

record Dim =
  var :: string
  is_rvar :: bool
  for_type :: ForType

datatype LoopLevel = Root | Inlined | At string string

text \<open>
  A definition (the pure one or an update) with the part of its schedule that the
  scheduler reads or writes: the loop dimensions, innermost first and ending with
  \<^verbatim>\<open>__outermost\<close>, the store and compute levels, the variables that have been
  split, the explicit bounds, the reduction variables, the conditions of the
  specializations, and the arguments on the left-hand side.
\<close>

record Definition =
  dims :: "Dim list"
  store_level :: LoopLevel
  compute_level :: LoopLevel
  schedule_splits :: "string list"
  schedule_bounds :: "Bound list"
  schedule_rvars :: "string list"
  specializations :: "Expr list"
  def_args :: "Expr list"

record Type =
  bits :: nat
  lanes :: nat

record Function =
  name :: string
  args :: "string list"
  definition_f :: Definition
  updates :: "Definition list"
  estimates :: "Bound list"
  output_types :: "Type list"
  has_extern_definition :: bool

record Cost =
  arith :: int64
  memory :: int64

record GroupAnalysis =
  cost :: Cost
  parallelism :: int64

text \<open>
  \<^verbatim>\<open>MachineParams\<close> is declared in a header outside the translated file. Its
  \<^verbatim>\<open>parallelism\<close> is compared with an \<^verbatim>\<open>int64_t\<close>, so it is kept at that width.
\<close>

record MachineParams =
  mp_parallelism :: int64
  mp_last_level_cache_size :: int64
  mp_balance :: int64

subsection \<open>Containers\<close>

text \<open>
  A \<^verbatim>\<open>std::map\<close> is an association list kept in ascending key order, a
  \<^verbatim>\<open>std::set\<close> an ascending list without duplicates; a range-\<^verbatim>\<open>for\<close> over the
  container visits the list from its head. Strings are ordered lexicographically by
  character code and \<^verbatim>\<open>FStage\<close> by name, then stage number, as \<^verbatim>\<open>operator<\<close> does.
  \<open>map_of m k\<close> is \<^verbatim>\<open>m.find(k)\<close>; \<^verbatim>\<open>get_element\<close> asserts that the key is present.
\<close>

definition get_element :: "('k \<times> 'v) list \<Rightarrow> 'k \<Rightarrow> 'v option" where
  "get_element m k = map_of m k"

text \<open>\<^verbatim>\<open>m[k] = v\<close>\<close>

fun map_assign :: "'k::linorder \<Rightarrow> 'v \<Rightarrow> ('k \<times> 'v) list \<Rightarrow> ('k \<times> 'v) list" where
  "map_assign k v [] = [(k, v)]"
| "map_assign k v (kv # m) =
     (if k < fst kv then (k, v) # kv # m
      else if k = fst kv then (k, v) # m
      else kv # map_assign k v m)"

text \<open>\<^verbatim>\<open>m.emplace(k, v)\<close> and \<^verbatim>\<open>m.insert(make_pair(k, v))\<close>: an existing entry is kept.\<close>

definition map_emplace :: "'k::linorder \<Rightarrow> 'v \<Rightarrow> ('k \<times> 'v) list \<Rightarrow> ('k \<times> 'v) list" where
  "map_emplace k v m = (if map_of m k = None then map_assign k v m else m)"

definition map_erase :: "'k \<Rightarrow> ('k \<times> 'v) list \<Rightarrow> ('k \<times> 'v) list" where
  "map_erase k m = filter (\<lambda>kv. fst kv \<noteq> k) m"

definition set_insert :: "'a::linorder \<Rightarrow> 'a list \<Rightarrow> 'a list" where
  "set_insert x xs = (if x \<in> set xs then xs else insort x xs)"

definition set_erase :: "'a \<Rightarrow> 'a list \<Rightarrow> 'a list" where
  "set_erase x xs = filter (\<lambda>y. y \<noteq> x) xs"

type_synonym DimBounds = "(string \<times> Interval) list"

type_synonym FStage = "string \<times> nat"

text \<open>
  An \<^verbatim>\<open>FStage\<close> of the source holds a \<^verbatim>\<open>Function\<close> handle and a stage number and
  is compared by function name and stage number. Every stage the scheduler builds takes
  its handle from the environment \<^verbatim>\<open>env\<close>, so the handle is represented by the name and
  resolved in \<^verbatim>\<open>env\<close>.
\<close>

type_synonym Env = "(string \<times> Function) list"

text \<open>
  Modelled from the spec: \<^verbatim>\<open>get_stage_definition\<close> is declared in
  \<^verbatim>\<open>AutoScheduleUtils.h\<close>, outside the translated file. Stage 0 is the pure
  definition; stages 1..k are the update definitions in declaration order. A stage
  number beyond the updates ends the run.
\<close>

definition get_stage_definition :: "Function \<Rightarrow> nat \<Rightarrow> Definition option" where
  "get_stage_definition f stage_num =
     (if stage_num = 0 then Some (definition_f f)
      else if stage_num - 1 < length (updates f) then Some (updates f ! (stage_num - 1))
      else None)"

text \<open>
  The loops \<^verbatim>\<open>for (int d = 0; d < (int)dims.size() - 1; d++)\<close> visit every dimension
  but the last one, \<^verbatim>\<open>__outermost\<close>, and none when \<^verbatim>\<open>dims\<close> is empty.
\<close>

definition loop_dims :: "Definition \<Rightarrow> Dim list" where
  "loop_dims def = butlast (dims def)"

subsection \<open>External collaborators\<close>

text \<open>
  The functions below are called by the translated file and defined elsewhere (the
  bounds engine, the region-cost oracle, \<^verbatim>\<open>AutoScheduleUtils\<close>, the \<^verbatim>\<open>Target\<close>); they
  are parameters of the model, and so is the sentinel \<^verbatim>\<open>unknown\<close>. \<open>everything\<close> is
  the default-constructed \<^verbatim>\<open>Interval()\<close>. The three computations of the source in
  single-precision floating point are parameters too: \<open>ceil_div_float extent size\<close> is
  \<^verbatim>\<open>std::ceil((float)extent / size)\<close> converted to \<^verbatim>\<open>uint64_t\<close>, and
  \<open>cost_factor arch footprint\<close> and \<open>initial_factor arch footprint\<close> are
  \<^verbatim>\<open>std::trunc(std::min(1 + footprint * load_slope, (float)balance))\<close> converted to
  \<^verbatim>\<open>int\<close> and to \<^verbatim>\<open>int64_t\<close>. The traversal
  \<^verbatim>\<open>DependenceAnalysis::regions_required\<close> of lines 254-427 consists of calls into the
  bounds engine; only its result is used here, so it is a parameter as well, with
  \<open>None\<close> for a run that one of its assertions ends.
\<close>

record Externals =
  unknown :: int64
  get_extent :: "Interval \<Rightarrow> int64"
  get_stage_bounds :: "Function \<Rightarrow> nat \<Rightarrow> DimBounds \<Rightarrow> DimBounds"
  can_parallelize_rvar :: "string \<Rightarrow> string \<Rightarrow> Definition \<Rightarrow> bool"
  regions_required ::
    "Function \<Rightarrow> nat \<Rightarrow> DimBounds \<Rightarrow> string list \<Rightarrow> bool \<Rightarrow> (string \<times> Box) list option"
  simplify :: "Expr \<Rightarrow> Expr"
  make_intersection :: "Interval \<Rightarrow> Interval \<Rightarrow> Interval"
  natural_vector_size :: "Type \<Rightarrow> int32"
  to_string :: "int32 \<Rightarrow> string"
  get_parents :: "string \<Rightarrow> nat \<Rightarrow> string list"
  region_cost :: "(string \<times> Box) list \<Rightarrow> string list \<Rightarrow> Cost"
  stage_region_cost :: "string \<Rightarrow> nat \<Rightarrow> DimBounds \<Rightarrow> string list \<Rightarrow> Cost"
  box_size :: "Box \<Rightarrow> int64"
  detailed_load_costs :: "(string \<times> Box) list \<Rightarrow> string list \<Rightarrow> (string \<times> int64) list"
  stage_detailed_load_costs ::
    "string \<Rightarrow> nat \<Rightarrow> DimBounds \<Rightarrow> string list \<Rightarrow> (string \<times> int64) list"
  combine_load_costs ::
    "(string \<times> int64) list \<Rightarrow> (string \<times> int64) list \<Rightarrow> (string \<times> int64) list"
  region_size :: "string \<Rightarrow> Box \<Rightarrow> int64"
  input_region_size :: "string \<Rightarrow> Box \<Rightarrow> int64"
  everything :: Interval
  ceil_div_float :: "int64 \<Rightarrow> int32 \<Rightarrow> int64"
  cost_factor :: "MachineParams \<Rightarrow> int64 \<Rightarrow> int32"
  initial_factor :: "MachineParams \<Rightarrow> int64 \<Rightarrow> int64"


section \<open>Checking the output estimates\<close>

text \<open>
  \<^verbatim>\<open>check_estimates_on_outputs\<close>, lines 88-109. The inner loop over the estimates of one
  output clears the flag and breaks at the first estimate whose variable is not an
  argument or whose \<^verbatim>\<open>min\<close> or \<^verbatim>\<open>extent\<close> is not an \<^verbatim>\<open>IntImm\<close>; the outer loop clears
  the flag and breaks when the number of estimates differs from the number of
  arguments. The flag is threaded through both loops as in the source.
\<close>

fun check_estimates_inner :: "string list \<Rightarrow> Bound list \<Rightarrow> bool \<Rightarrow> bool" where
  "check_estimates_inner vars [] estimates_avail = estimates_avail"
| "check_estimates_inner vars (e # es) estimates_avail =
     (if var_b e \<notin> set vars \<or> \<not> (is_IntImm (min_b e) \<and> is_IntImm (extent_b e))
      then False
      else check_estimates_inner vars es estimates_avail)"

fun check_estimates_outer :: "Function list \<Rightarrow> bool \<Rightarrow> bool" where
  "check_estimates_outer [] estimates_avail = estimates_avail"
| "check_estimates_outer (out # outs) estimates_avail =
     (if length (estimates out) \<noteq> length (args out)
      then False
      else check_estimates_outer outs
             (check_estimates_inner (args out) (estimates out) estimates_avail))"

definition check_estimates_on_outputs :: "Function list \<Rightarrow> bool" where
  "check_estimates_on_outputs outputs = check_estimates_outer outputs True"

section \<open>The region analyzer\<close>

text \<open>\<^verbatim>\<open>simplify_box\<close>, lines 29-34.\<close>

definition simplify_box :: "Externals \<Rightarrow> Box \<Rightarrow> Box" where
  "simplify_box ext b =
     map (\<lambda>i. \<lparr>min_e = simplify ext (min_e i), max_e = simplify ext (max_e i)\<rparr>) b"

text \<open>
  \<^verbatim>\<open>DependenceAnalysis::redundant_regions\<close>, lines 432-493. First the loop that shifts
  the interval of \<^verbatim>\<open>var\<close> by its length \<^verbatim>\<open>max - min + 1\<close> and copies the others.
\<close>

fun shift_bounds :: "string \<Rightarrow> DimBounds \<Rightarrow> DimBounds \<Rightarrow> DimBounds" where
  "shift_bounds v [] shifted_bounds = shifted_bounds"
| "shift_bounds v (b # bs) shifted_bounds =
     (if fst b = v then
        (let len = Add (Sub (max_e (snd b)) (min_e (snd b))) (IntImm 1);
             bound = \<lparr>min_e = Add (min_e (snd b)) len, max_e = Add (max_e (snd b)) len\<rparr>
         in shift_bounds v bs (map_assign (fst b) bound shifted_bounds))
      else shift_bounds v bs (map_assign (fst b) (snd b) shifted_bounds))"

text \<open>
  The loop over \<^verbatim>\<open>regions\<close> looks each producer up in \<^verbatim>\<open>regions_shifted\<close>
  (\<open>iter\<close> is \<open>Some\<close> box at an entry and \<open>None\<close> at \<^verbatim>\<open>regions_shifted.end()\<close>) and
  then tests \<^verbatim>\<open>iter == regions.end()\<close>. The end of \<^verbatim>\<open>regions\<close> is a position of another
  container and no iterator into \<^verbatim>\<open>regions_shifted\<close> equals it, so the test fails for
  every \<open>iter\<close> and the \<^verbatim>\<open>continue\<close> below it is never taken. Reading \<^verbatim>\<open>iter->second\<close>
  at \<^verbatim>\<open>regions_shifted.end()\<close> is a read through an invalid iterator.
\<close>

definition iter_is_regions_end :: "Box option \<Rightarrow> bool" where
  "iter_is_regions_end iter = False"

fun overlaps_loop ::
  "Externals \<Rightarrow> (string \<times> Box) list \<Rightarrow> (string \<times> Box) list \<Rightarrow> (string \<times> Box) list
     \<Rightarrow> (string \<times> Box) list option" where
  "overlaps_loop ext regions_shifted [] overlaps = Some overlaps"
| "overlaps_loop ext regions_shifted (reg # regs) overlaps =
     (let iter = map_of regions_shifted (fst reg) in
      if iter_is_regions_end iter then overlaps_loop ext regions_shifted regs overlaps
      else
        (case iter of
           None \<Rightarrow> None
         | Some b_shifted \<Rightarrow>
             if length (snd reg) \<noteq> length b_shifted then None
             else
               (let b_intersect = map2 (make_intersection ext) (snd reg) b_shifted in
                if map_of overlaps (fst reg) \<noteq> None then None
                else overlaps_loop ext regions_shifted regs
                       (map_emplace (fst reg) b_intersect overlaps))))"

definition redundant_regions ::
  "Externals \<Rightarrow> Function \<Rightarrow> nat \<Rightarrow> string \<Rightarrow> DimBounds \<Rightarrow> string list \<Rightarrow> bool
     \<Rightarrow> (string \<times> Box) list option" where
  "redundant_regions ext f stage_num v bounds prods only_regions_computed =
     do {
       regions \<leftarrow> regions_required ext f stage_num bounds prods only_regions_computed;
       let shifted_bounds = shift_bounds v bounds [];
       regions_shifted \<leftarrow>
         regions_required ext f stage_num shifted_bounds prods only_regions_computed;
       overlaps \<leftarrow> overlaps_loop ext regions_shifted regions [];
       Some (map (\<lambda>fb. (fst fb, simplify_box ext (snd fb))) overlaps)
     }"

section \<open>The partitioner\<close>

record Group =
  output_stage :: FStage
  members :: "FStage list"
  inlined :: "string list"
  tile_sizes :: "(string \<times> int32) list"

record GroupConfig =
  tile_sizes_c :: "(string \<times> int32) list"
  analysis :: GroupAnalysis

datatype Level = INLINE | FAST_MEM

text \<open>
  The members of \<^verbatim>\<open>struct Partitioner\<close> that are fixed at construction, and those the
  grouping changes.
\<close>

record Pipeline =
  env :: Env
  pipeline_bounds :: "(string \<times> Box) list"
  arch_params :: MachineParams
  outputs :: "Function list"

text \<open>\<^verbatim>\<open>Partitioner::get_bounds\<close>, lines 1389-1399.\<close>

fun get_bounds_loop ::
  "Pipeline \<Rightarrow> string \<Rightarrow> string list \<Rightarrow> nat \<Rightarrow> DimBounds \<Rightarrow> DimBounds option" where
  "get_bounds_loop p fname [] d bounds = Some bounds"
| "get_bounds_loop p fname (a # as) d bounds =
     do {
       box \<leftarrow> get_element (pipeline_bounds p) fname;
       if d < length box
       then get_bounds_loop p fname as (Suc d) (map_assign a (box ! d) bounds)
       else None
     }"

definition get_bounds :: "Externals \<Rightarrow> Pipeline \<Rightarrow> FStage \<Rightarrow> DimBounds option" where
  "get_bounds ext p s =
     do {
       f \<leftarrow> get_element (env p) (fst s);
       def \<leftarrow> get_stage_definition f (snd s);
       bounds \<leftarrow> get_bounds_loop p (name f) (args f) 0 [];
       Some (get_stage_bounds ext f (snd s) bounds)
     }"

text \<open>
  \<^verbatim>\<open>Partitioner::get_bounds_from_tile_sizes\<close>, lines 1401-1432. \<^verbatim>\<open>2 * size\<close> is computed
  at the width of \<^verbatim>\<open>int\<close> and converted to \<^verbatim>\<open>int64_t\<close> for the comparison with the
  extent; \<^verbatim>\<open>Interval(0, size - 1)\<close> holds two integer literals.
\<close>

fun tile_bounds_loop ::
  "Externals \<Rightarrow> DimBounds \<Rightarrow> (string \<times> int32) list \<Rightarrow> Dim list \<Rightarrow> DimBounds
     \<Rightarrow> DimBounds option" where
  "tile_bounds_loop ext def_bounds tiles [] bounds = Some bounds"
| "tile_bounds_loop ext def_bounds tiles (d # ds) bounds =
     do {
       bound \<leftarrow> get_element def_bounds (var d);
       (case map_of tiles (var d) of
          Some sz \<Rightarrow>
            (let extent = get_extent ext bound in
             if (scast (2 * sz) :: int64) \<le>s extent
             then tile_bounds_loop ext def_bounds tiles ds
                    (map_assign (var d)
                       \<lparr>min_e = IntImm 0, max_e = IntImm (sint (sz - 1))\<rparr> bounds)
             else tile_bounds_loop ext def_bounds tiles ds (map_assign (var d) bound bounds))
        | None \<Rightarrow> tile_bounds_loop ext def_bounds tiles ds (map_assign (var d) bound bounds))
     }"

definition get_bounds_from_tile_sizes ::
  "Externals \<Rightarrow> Pipeline \<Rightarrow> FStage \<Rightarrow> (string \<times> int32) list \<Rightarrow> DimBounds option" where
  "get_bounds_from_tile_sizes ext p s tiles =
     do {
       f \<leftarrow> get_element (env p) (fst s);
       def \<leftarrow> get_stage_definition f (snd s);
       def_bounds \<leftarrow> get_bounds ext p s;
       tile_bounds_loop ext def_bounds tiles (loop_dims def) []
     }"

text \<open>
  \<^verbatim>\<open>Partitioner::estimate_benefit\<close> on two analyses, lines 1773-1802.
\<close>

definition estimate_benefit ::
  "Externals \<Rightarrow> MachineParams \<Rightarrow> GroupAnalysis \<Rightarrow> GroupAnalysis \<Rightarrow> bool \<Rightarrow> bool \<Rightarrow> int64" where
  "estimate_benefit ext arch old_grouping new_grouping no_redundant_work ensure_parallelism =
     (if ensure_parallelism \<and> parallelism new_grouping <s mp_parallelism arch
      then unknown ext
      else if arith (cost old_grouping) \<noteq> unknown ext
              \<and> arith (cost new_grouping) \<noteq> unknown ext
      then
        (let arith_benefit = arith (cost old_grouping) - arith (cost new_grouping) in
         if no_redundant_work \<and> arith_benefit <s 0 then unknown ext
         else if memory (cost old_grouping) \<noteq> unknown ext
                 \<and> memory (cost new_grouping) \<noteq> unknown ext
         then
           (let mem_benefit = memory (cost old_grouping) - memory (cost new_grouping) in
            mem_benefit + arith_benefit)
         else unknown ext)
      else unknown ext)"

text \<open>
  \<^verbatim>\<open>Partitioner::generate_tile_configs\<close>, lines 1110-1205. \<^verbatim>\<open>std::max\<close> on \<^verbatim>\<open>int\<close> is
  the signed maximum. A tiling is pushed when it is not empty and no equal map is in
  \<^verbatim>\<open>tile_configs\<close> yet. The last loop runs \<^verbatim>\<open>i\<close> over the bit masks below
  \<^verbatim>\<open>1 << tile_vars.size()\<close>.
\<close>

definition max_int32 :: "int32 \<Rightarrow> int32 \<Rightarrow> int32" where
  "max_int32 a b = (if a <s b then b else a)"

definition size_variants :: "int32 list" where
  "size_variants = [1, 4, 8, 16, 32, 64, 128, 256]"

definition min_inner_dim_size :: int32 where
  "min_inner_dim_size = 64"

definition push_config ::
  "(string \<times> int32) list \<Rightarrow> (string \<times> int32) list list \<Rightarrow> (string \<times> int32) list list" where
  "push_config tiling tile_configs =
     (if tiling \<noteq> [] then
        (if tiling \<in> set tile_configs then tile_configs else tile_configs @ [tiling])
      else tile_configs)"

definition skewed_tiling :: "string list \<Rightarrow> nat \<Rightarrow> int32 \<Rightarrow> (string \<times> int32) list" where
  "skewed_tiling tile_vars i dim_size =
     fold (\<lambda>j tiling.
             if j < i then map_assign (tile_vars ! j) (last size_variants) tiling
             else if j > i then map_assign (tile_vars ! j) (hd size_variants) tiling
             else tiling)
       [0..<length tile_vars]
       (map_assign (tile_vars ! i)
          (if i = 0 then max_int32 dim_size min_inner_dim_size else dim_size) [])"

definition square_tiling :: "string list \<Rightarrow> int32 \<Rightarrow> (string \<times> int32) list" where
  "square_tiling tile_vars dim_size =
     fold (\<lambda>j tiling.
             map_assign (tile_vars ! j)
               (if j = 0 then max_int32 dim_size min_inner_dim_size else dim_size) tiling)
       [0..<length tile_vars] []"

definition reorder_tiling :: "string list \<Rightarrow> nat \<Rightarrow> (string \<times> int32) list" where
  "reorder_tiling tile_vars i =
     fold (\<lambda>j tiling.
             if odd (i div 2 ^ j) then
               (if j = 0 then map_assign (tile_vars ! j) min_inner_dim_size tiling
                else map_assign (tile_vars ! j) 1 tiling)
             else tiling)
       [0..<length tile_vars] []"

definition generate_tile_configs :: "Definition \<Rightarrow> (string \<times> int32) list list" where
  "generate_tile_configs def =
     (let tile_vars = map var (filter (\<lambda>d. \<not> is_rvar d) (loop_dims def));
          skewed =
            fold (\<lambda>i tile_configs.
                    fold (\<lambda>dim_size. push_config (skewed_tiling tile_vars i dim_size))
                      size_variants tile_configs)
              [0..<length tile_vars] [];
          square =
            fold (\<lambda>dim_size. push_config (square_tiling tile_vars dim_size))
              size_variants skewed
      in fold (\<lambda>i. push_config (reorder_tiling tile_vars i))
           [0..<2 ^ length tile_vars] square)"

text \<open>
  \<^verbatim>\<open>Partitioner::analyze_group\<close>, lines 1434-1691. The function has three kinds of
  exit: a failed assertion (\<open>None\<close>), an early \<^verbatim>\<open>return g_analysis\<close> with every field
  still \<^verbatim>\<open>unknown\<close> (\<open>Some None\<close>), and the regular end. The sets \<^verbatim>\<open>group_inputs\<close>,
  \<^verbatim>\<open>prod_reg\<close> and \<^verbatim>\<open>input_reg\<close> and the counter \<^verbatim>\<open>num_ele_per_tile\<close> only feed the
  debug output and are left out, as is the flag \<^verbatim>\<open>show_analysis\<close>.
\<close>

definition unknown_analysis :: "Externals \<Rightarrow> GroupAnalysis" where
  "unknown_analysis ext =
     \<lparr>cost = \<lparr>arith = unknown ext, memory = unknown ext\<rparr>, parallelism = unknown ext\<rparr>"

text \<open>The loop that counts the tiles and the parallelism, lines 1471-1490.\<close>

fun count_tiles ::
  "Externals \<Rightarrow> string \<Rightarrow> Definition \<Rightarrow> DimBounds \<Rightarrow> (string \<times> int32) list \<Rightarrow> Dim list
     \<Rightarrow> int64 \<times> int64 \<Rightarrow> (int64 \<times> int64) option option" where
  "count_tiles ext fname def stg_bounds tiles [] acc = Some (Some acc)"
| "count_tiles ext fname def stg_bounds tiles (d # ds) acc =
     (case map_of tiles (var d) of
        None \<Rightarrow> count_tiles ext fname def stg_bounds tiles ds acc
      | Some sz \<Rightarrow>
          (case get_element stg_bounds (var d) of
             None \<Rightarrow> None
           | Some bound \<Rightarrow>
               (let extent = get_extent ext bound in
                if extent = unknown ext then Some None
                else
                  (let dim_tiles = ceil_div_float ext extent sz;
                       estimate_tiles = fst acc * dim_tiles;
                       par = (if can_parallelize_rvar ext (var d) fname def
                              then snd acc * dim_tiles else snd acc)
                   in count_tiles ext fname def stg_bounds tiles ds (estimate_tiles, par)))))"

text \<open>
  \<^verbatim>\<open>out_tile_extent\<close>, lines 1566-1577. The loop bound \<^verbatim>\<open>args.size() - 1\<close> is
  unsigned: with no argument it wraps and \<^verbatim>\<open>args[0]\<close> is read out of range.
\<close>

definition out_tile_extent :: "Externals \<Rightarrow> Function \<Rightarrow> nat \<Rightarrow> DimBounds \<Rightarrow> Box option" where
  "out_tile_extent ext f stage_num tile_bounds =
     (if stage_num = 0 then
        (if args f = [] then None
         else Some (map (\<lambda>a. case map_of tile_bounds a of
                                Some i \<Rightarrow> i | None \<Rightarrow> everything ext)
                      (butlast (args f))))
      else Some [])"

definition model_reuse :: bool where
  "model_reuse = False"

text \<open>
  The loop over the combined load costs, lines 1614-1671; the accumulator is
  \<^verbatim>\<open>per_tile_cost.memory\<close>.
\<close>

fun load_costs_loop ::
  "Externals \<Rightarrow> Pipeline \<Rightarrow> Group \<Rightarrow> string list \<Rightarrow> (string \<times> Box) list \<Rightarrow> Box
     \<Rightarrow> (string \<times> int64) list \<Rightarrow> int64 \<Rightarrow> int64 option option" where
  "load_costs_loop ext p g group_members alloc_regions out_extent [] mem = Some (Some mem)"
| "load_costs_loop ext p g group_members alloc_regions out_extent (f_load # rest) mem =
     (if fst f_load \<in> set (inlined g) then None
      else
        (case get_element alloc_regions (fst f_load) of
           None \<Rightarrow> None
         | Some alloc_reg \<Rightarrow>
             (let is_group_member = (fst f_load \<in> set group_members);
                  is_output = (fst f_load = fst (output_stage g))
              in
              if \<not> is_output \<and> is_group_member then
                (let footprint = region_size ext (fst f_load) alloc_reg;
                     factor = cost_factor ext (arch_params p) footprint
                 in load_costs_loop ext p g group_members alloc_regions out_extent rest
                      (mem + scast factor * snd f_load))
              else
                (case get_element (pipeline_bounds p) (fst f_load) of
                   None \<Rightarrow> None
                 | Some f_load_pipeline_bounds \<Rightarrow>
                     (let is_function = (map_of (env p) (fst f_load) \<noteq> None) in
                      if is_function \<and> is_output \<and> \<not> is_group_member then None
                      else
                        (let initial_footprint =
                               (if \<not> is_function
                                then input_region_size ext (fst f_load) f_load_pipeline_bounds
                                else region_size ext (fst f_load) f_load_pipeline_bounds);
                             footprint0 =
                               (if \<not> is_function
                                then input_region_size ext (fst f_load) alloc_reg
                                else if is_output
                                then region_size ext (fst f_load) out_extent
                                else region_size ext (fst f_load) alloc_reg);
                             mem1 =
                               (if model_reuse
                                then mem + initial_factor ext (arch_params p) initial_footprint
                                             * footprint0
                                else mem);
                             footprint = (if model_reuse then footprint0 else initial_footprint)
                         in
                         if footprint = unknown ext then Some None
                         else
                           (let factor = cost_factor ext (arch_params p) footprint
                            in load_costs_loop ext p g group_members alloc_regions out_extent
                                 rest (mem1 + scast factor * snd f_load))))))))"

text \<open>
  The analysis up to the loop over the load costs: the number of tiles, the
  parallelism, the arithmetic cost of a tile, the set of member names, the allocated
  regions, the extent of the output tile and the combined load costs.
\<close>

record TileAnalysis =
  estimate_tiles :: int64
  tile_parallelism :: int64
  group_cost_arith :: int64
  group_members :: "string list"
  alloc_regions :: "(string \<times> Box) list"
  out_extent :: Box
  group_load_costs :: "(string \<times> int64) list"

definition analyze_group_loads ::
  "Externals \<Rightarrow> Pipeline \<Rightarrow> Group \<Rightarrow> TileAnalysis option option" where
  "analyze_group_loads ext p g =
     do {
       out_f \<leftarrow> get_element (env p) (fst (output_stage g));
       def \<leftarrow> get_stage_definition out_f (snd (output_stage g));
       let members_set = fold (\<lambda>stg. set_insert (fst stg)) (members g) [];
       stg_bounds \<leftarrow> get_bounds ext p (output_stage g);
       tiles \<leftarrow>
         count_tiles ext (fst (output_stage g)) def stg_bounds (tile_sizes g) (loop_dims def) (1, 1);
       (case tiles of
          None \<Rightarrow> Some None
        | Some counted \<Rightarrow>
            do {
              tile_bounds \<leftarrow> get_bounds_from_tile_sizes ext p (output_stage g) (tile_sizes g);
              alloc \<leftarrow>
                regions_required ext out_f (snd (output_stage g)) tile_bounds members_set False;
              compute_regions \<leftarrow>
                regions_required ext out_f (snd (output_stage g)) tile_bounds members_set True;
              let group_reg =
                filter (\<lambda>reg. fst reg \<in> set members_set \<and> fst reg \<noteq> fst (output_stage g))
                  compute_regions;
              let tile_cost = region_cost ext group_reg (inlined g);
              if arith tile_cost = unknown ext \<or> memory tile_cost = unknown ext
              then Some None
              else
                (let out_cost =
                       stage_region_cost ext (fst (output_stage g)) (snd (output_stage g)) tile_bounds
                         (inlined g)
                 in
                 if arith out_cost = unknown ext \<or> memory out_cost = unknown ext
                 then Some None
                 else if list_ex (\<lambda>reg. box_size ext (snd reg) = unknown ext) alloc
                 then Some None
                 else
                   do {
                     let loads =
                       combine_load_costs ext
                         (detailed_load_costs ext group_reg (inlined g))
                         (stage_detailed_load_costs ext (fst (output_stage g)) (snd (output_stage g))
                            tile_bounds (inlined g));
                     extent \<leftarrow> out_tile_extent ext out_f (snd (output_stage g)) tile_bounds;
                     Some (Some \<lparr>estimate_tiles = fst counted,
                                  tile_parallelism = snd counted,
                                  group_cost_arith = arith tile_cost + arith out_cost,
                                  group_members = members_set,
                                  alloc_regions = alloc,
                                  out_extent = extent,
                                  group_load_costs = loads\<rparr>)
                   })
            })
     }"

text \<open>
  \<^verbatim>\<open>per_tile_cost.memory\<close> at the end of the loop over the load costs; it starts at 0.
\<close>

definition per_tile_memory ::
  "Externals \<Rightarrow> Pipeline \<Rightarrow> Group \<Rightarrow> TileAnalysis \<Rightarrow> int64 option option" where
  "per_tile_memory ext p g t =
     load_costs_loop ext p g (group_members t) (alloc_regions t) (out_extent t)
       (group_load_costs t) 0"

definition analyze_group :: "Externals \<Rightarrow> Pipeline \<Rightarrow> Group \<Rightarrow> GroupAnalysis option" where
  "analyze_group ext p g =
     (case analyze_group_loads ext p g of
        None \<Rightarrow> None
      | Some None \<Rightarrow> Some (unknown_analysis ext)
      | Some (Some t) \<Rightarrow>
          (case per_tile_memory ext p g t of
             None \<Rightarrow> None
           | Some None \<Rightarrow> Some (unknown_analysis ext)
           | Some (Some mem) \<Rightarrow>
               (let g_analysis =
                      \<lparr>cost = \<lparr>arith = group_cost_arith t * estimate_tiles t,
                                memory = mem * estimate_tiles t\<rparr>,
                       parallelism = tile_parallelism t\<rparr>
                in if 0 <s mem then Some g_analysis else None)))"

text \<open>\<^verbatim>\<open>Partitioner::find_best_tile_config\<close>, lines 1207-1256.\<close>

fun best_config_loop ::
  "Externals \<Rightarrow> Pipeline \<Rightarrow> Group \<Rightarrow> (string \<times> int32) list list
     \<Rightarrow> (string \<times> int32) list \<times> GroupAnalysis
     \<Rightarrow> ((string \<times> int32) list \<times> GroupAnalysis) option" where
  "best_config_loop ext p g [] best = Some best"
| "best_config_loop ext p g (config # configs) best =
     do {
       new_analysis \<leftarrow> analyze_group ext p (g\<lparr>tile_sizes := config\<rparr>);
       let benefit = estimate_benefit ext (arch_params p) (snd best) new_analysis False True;
       if 0 <s benefit
       then best_config_loop ext p g configs (config, new_analysis)
       else best_config_loop ext p g configs best
     }"

definition find_best_tile_config ::
  "Externals \<Rightarrow> Pipeline \<Rightarrow> Group \<Rightarrow> ((string \<times> int32) list \<times> GroupAnalysis) option" where
  "find_best_tile_config ext p g =
     do {
       no_tile_analysis \<leftarrow> analyze_group ext p (g\<lparr>tile_sizes := []\<rparr>);
       if arith (cost no_tile_analysis) = unknown ext
       then Some ([], no_tile_analysis)
       else
         do {
           out_f \<leftarrow> get_element (env p) (fst (output_stage g));
           def \<leftarrow> get_stage_definition out_f (snd (output_stage g));
           best_config_loop ext p g (generate_tile_configs def) ([], no_tile_analysis)
         }
     }"

text \<open>
  \<^verbatim>\<open>Partitioner::merge_groups(prod_group, cons_group)\<close>, lines 1693-1713. The new group
  is built by the constructor, which leaves \<^verbatim>\<open>tile_sizes\<close> empty.
\<close>

definition merge_groups :: "Group \<Rightarrow> Group \<Rightarrow> Group" where
  "merge_groups prod_group cons_group =
     \<lparr>output_stage = output_stage cons_group,
      members = members prod_group @ members cons_group,
      inlined = fold set_insert (inlined cons_group) (fold set_insert (inlined prod_group) []),
      tile_sizes = []\<rparr>"

text \<open>The stages \<^verbatim>\<open>FStage(prod_f, s)\<close> for \<^verbatim>\<open>s\<close> below \<^verbatim>\<open>prod_f.updates().size() + 1\<close>.\<close>

definition stages_of :: "Function \<Rightarrow> FStage list" where
  "stages_of f = map (\<lambda>s. (name f, s)) [0..<length (updates f) + 1]"

text \<open>\<^verbatim>\<open>get_element\<close> on every key of a list, in order.\<close>

fun get_elements :: "('k \<times> 'v) list \<Rightarrow> 'k list \<Rightarrow> 'v list option" where
  "get_elements m [] = Some []"
| "get_elements m (k # ks) =
     do { v \<leftarrow> get_element m k; vs \<leftarrow> get_elements m ks; Some (v # vs) }"

text \<open>\<^verbatim>\<open>Partitioner::evaluate_choice\<close>, lines 1715-1771.\<close>

type_synonym GroupingChoice = "string \<times> FStage"

definition evaluate_choice ::
  "Externals \<Rightarrow> Pipeline \<Rightarrow> (FStage \<times> Group) list \<Rightarrow> GroupingChoice \<Rightarrow> Level
     \<Rightarrow> GroupConfig option" where
  "evaluate_choice ext p groups choice level =
     do {
       prod_f \<leftarrow> get_element (env p) (fst choice);
       prod_groups \<leftarrow> get_elements groups (stages_of prod_f);
       cons \<leftarrow> get_element groups (snd choice);
       let group = fold merge_groups prod_groups cons;
       (case level of
          INLINE \<Rightarrow>
            do {
              cons_f \<leftarrow> get_element (env p) (fst (output_stage cons));
              def \<leftarrow> get_stage_definition cons_f (snd (output_stage cons));
              let tiles = fold (\<lambda>d. map_assign (var d) 1) (loop_dims def) [];
              let inl =
                fold (\<lambda>prod_g inl. fold (\<lambda>stg. set_insert (fst stg)) (members prod_g) inl)
                  prod_groups (inlined group);
              let inl = fold set_insert (inlined cons) inl;
              group_analysis \<leftarrow> analyze_group ext p (group\<lparr>tile_sizes := tiles, inlined := inl\<rparr>);
              Some \<lparr>tile_sizes_c = tiles, analysis = group_analysis\<rparr>
            }
        | FAST_MEM \<Rightarrow>
            do {
              config \<leftarrow> find_best_tile_config ext p group;
              Some \<lparr>tile_sizes_c = fst config, analysis = snd config\<rparr>
            })
     }"

text \<open>
  \<^verbatim>\<open>Partitioner::estimate_benefit\<close> on a list of choices, lines 1804-1859. The first
  loop sums the analyses of the choices and collects the stages of the groups that
  would be merged; the second sums the current costs of those groups. Both stop at
  the first analysis whose arithmetic cost is \<^verbatim>\<open>unknown\<close>.
\<close>

definition max_int64 :: int64 where
  "max_int64 = 2 ^ 63 - 1"

definition min_int64 :: "int64 \<Rightarrow> int64 \<Rightarrow> int64" where
  "min_int64 a b = (if b <s a then b else a)"

definition accumulate :: "GroupAnalysis \<Rightarrow> GroupAnalysis \<Rightarrow> GroupAnalysis" where
  "accumulate acc analysisg =
     \<lparr>cost = \<lparr>arith = arith (cost acc) + arith (cost analysisg),
               memory = memory (cost acc) + memory (cost analysisg)\<rparr>,
      parallelism = min_int64 (parallelism acc) (parallelism analysisg)\<rparr>"

definition zero_analysis :: GroupAnalysis where
  "zero_analysis = \<lparr>cost = \<lparr>arith = 0, memory = 0\<rparr>, parallelism = max_int64\<rparr>"

fun new_analysis_loop ::
  "Externals \<Rightarrow> Pipeline \<Rightarrow> (GroupingChoice \<times> GroupConfig) list \<Rightarrow> FStage list
     \<Rightarrow> GroupAnalysis \<Rightarrow> (FStage list \<times> GroupAnalysis) option" where
  "new_analysis_loop ext p [] no_merge_groups acc = Some (no_merge_groups, acc)"
| "new_analysis_loop ext p (choice # choices) no_merge_groups acc =
     do {
       prod_f \<leftarrow> get_element (env p) (fst (fst choice));
       let no_merge_groups = fold set_insert (stages_of prod_f) no_merge_groups;
       let no_merge_groups = set_insert (snd (fst choice)) no_merge_groups;
       let analysisg = analysis (snd choice);
       if arith (cost analysisg) \<noteq> unknown ext
       then new_analysis_loop ext p choices no_merge_groups (accumulate acc analysisg)
       else Some (no_merge_groups, unknown_analysis ext)
     }"

fun old_analysis_loop ::
  "Externals \<Rightarrow> (FStage \<times> GroupAnalysis) list \<Rightarrow> FStage list \<Rightarrow> GroupAnalysis
     \<Rightarrow> GroupAnalysis option" where
  "old_analysis_loop ext group_costs [] acc = Some acc"
| "old_analysis_loop ext group_costs (g # gs) acc =
     (case map_of group_costs g of
        None \<Rightarrow> None
      | Some analysisg \<Rightarrow>
          if arith (cost analysisg) \<noteq> unknown ext
          then old_analysis_loop ext group_costs gs (accumulate acc analysisg)
          else Some (unknown_analysis ext))"

definition estimate_benefit_choices ::
  "Externals \<Rightarrow> Pipeline \<Rightarrow> (FStage \<times> GroupAnalysis) list
     \<Rightarrow> (GroupingChoice \<times> GroupConfig) list \<Rightarrow> bool \<Rightarrow> bool \<Rightarrow> int64 option" where
  "estimate_benefit_choices ext p group_costs choices no_redundant_work ensure_parallelism =
     do {
       new \<leftarrow> new_analysis_loop ext p choices [] zero_analysis;
       old_group_analysis \<leftarrow> old_analysis_loop ext group_costs (fst new) zero_analysis;
       Some (estimate_benefit ext (arch_params p) old_group_analysis (snd new)
               no_redundant_work ensure_parallelism)
     }"

text \<open>The members of \<^verbatim>\<open>struct Partitioner\<close> that the grouping changes.\<close>

record Partitioner =
  groups :: "(FStage \<times> Group) list"
  children :: "(FStage \<times> FStage list) list"
  group_costs :: "(FStage \<times> GroupAnalysis) list"
  grouping_cache :: "(GroupingChoice \<times> GroupConfig) list"

text \<open>
  The constructor, lines 905-957: one group per stage, and the \<^verbatim>\<open>children\<close> of every
  stage. \<^verbatim>\<open>children[k].insert(c)\<close> creates the entry of \<^verbatim>\<open>k\<close> when it is missing.
\<close>

definition children_insert ::
  "FStage \<Rightarrow> FStage \<Rightarrow> (FStage \<times> FStage list) list \<Rightarrow> (FStage \<times> FStage list) list" where
  "children_insert k c ch =
     map_assign k (set_insert c (case map_of ch k of Some cs \<Rightarrow> cs | None \<Rightarrow> [])) ch"

definition stage_children ::
  "Externals \<Rightarrow> Env \<Rightarrow> Function \<Rightarrow> nat \<Rightarrow> (FStage \<times> FStage list) list
     \<Rightarrow> (FStage \<times> FStage list) list" where
  "stage_children ext e f s ch =
     (let ch1 =
            fold (\<lambda>c ch.
                    case map_of e c of
                      Some prod_func \<Rightarrow>
                        if c \<noteq> name f
                        then children_insert (name prod_func, length (updates prod_func))
                               (name f, s) ch
                        else ch
                    | None \<Rightarrow> ch)
              (get_parents ext (name f) s) ch
      in if s > 0 then children_insert (name f, s - 1) (name f, s) ch1 else ch1)"

definition new_Partitioner :: "Externals \<Rightarrow> Pipeline \<Rightarrow> Partitioner" where
  "new_Partitioner ext p =
     \<lparr>groups =
        fold (\<lambda>f gs.
                fold (\<lambda>stg. map_emplace stg
                               \<lparr>output_stage = stg, members = [stg], inlined = [],
                                tile_sizes = []\<rparr>)
                  (stages_of (snd f)) gs)
          (env p) [],
      children =
        fold (\<lambda>f ch.
                fold (stage_children ext (env p) (snd f)) [0..<length (updates (snd f)) + 1] ch)
          (env p) [],
      group_costs = [],
      grouping_cache = []\<rparr>"

text \<open>\<^verbatim>\<open>Partitioner::initialize_groups\<close>, lines 998-1005.\<close>

fun initialize_loop ::
  "Externals \<Rightarrow> Pipeline \<Rightarrow> (FStage \<times> Group) list \<Rightarrow> Partitioner \<Rightarrow> Partitioner option" where
  "initialize_loop ext p [] st = Some st"
| "initialize_loop ext p (g # gs) st =
     do {
       best \<leftarrow> find_best_tile_config ext p (snd g);
       initialize_loop ext p gs
         (st\<lparr>groups := map_assign (fst g) ((snd g)\<lparr>tile_sizes := fst best\<rparr>) (groups st),
             group_costs := map_emplace (output_stage (snd g)) (snd best) (group_costs st)\<rparr>)
     }"

definition initialize_groups :: "Externals \<Rightarrow> Pipeline \<Rightarrow> Partitioner \<Rightarrow> Partitioner option" where
  "initialize_groups ext p st =
     do {
       st' \<leftarrow> initialize_loop ext p (groups st) st;
       Some (st'\<lparr>grouping_cache := []\<rparr>)
     }"

text \<open>\<^verbatim>\<open>Partitioner::get_pipeline_cost\<close>, lines 870-880.\<close>

fun pipeline_cost_loop ::
  "(FStage \<times> GroupAnalysis) list \<Rightarrow> (FStage \<times> Group) list \<Rightarrow> Cost \<Rightarrow> Cost option" where
  "pipeline_cost_loop costs [] total_cost = Some total_cost"
| "pipeline_cost_loop costs (g # gs) total_cost =
     do {
       a \<leftarrow> get_element costs (fst g);
       pipeline_cost_loop costs gs
         \<lparr>arith = arith total_cost + arith (cost a),
          memory = memory total_cost + memory (cost a)\<rparr>
     }"

definition get_pipeline_cost :: "Partitioner \<Rightarrow> Cost option" where
  "get_pipeline_cost st =
     (if group_costs st = [] then None
      else pipeline_cost_loop (group_costs st) (groups st) \<lparr>arith = 0, memory = 0\<rparr>)"

text \<open>
  Modelled from the spec: \<^verbatim>\<open>Function::is_pure\<close> is defined outside the translated
  file; a pure function is one with no update definitions.
\<close>

definition is_pure :: "Function \<Rightarrow> bool" where
  "is_pure f = (updates f = [])"

text \<open>The candidate pairs collected at the start of an iteration, lines 1266-1309.\<close>

fun candidates_loop ::
  "Pipeline \<Rightarrow> Level \<Rightarrow> (FStage \<times> FStage list) list \<Rightarrow> (FStage \<times> Group) list
     \<Rightarrow> (string \<times> string) list \<Rightarrow> (string \<times> string) list option" where
  "candidates_loop p level ch [] cand = Some cand"
| "candidates_loop p level ch (g # gs) cand =
     do {
       let is_output = list_ex (\<lambda>f. fst (fst g) = name f) (outputs p);
       prod_f \<leftarrow> get_element (env p) (fst (fst g));
       let is_final_stage = (snd (fst g) = length (updates prod_f));
       if is_output \<or> \<not> is_final_stage then candidates_loop p level ch gs cand
       else
         (case map_of ch (fst g) of
            None \<Rightarrow> candidates_loop p level ch gs cand
          | Some cs \<Rightarrow>
              (let child_groups = fold (\<lambda>s. set_insert (fst s)) cs [];
                   num_children = length child_groups
               in
               if num_children = 1 \<and> level = FAST_MEM
               then candidates_loop p level ch gs (cand @ [(name prod_f, hd child_groups)])
               else if level = INLINE \<and> is_pure prod_f
               then candidates_loop p level ch gs (cand @ [(name prod_f, [])])
               else candidates_loop p level ch gs cand))
     }"

text \<open>
  \<^verbatim>\<open>Partitioner::choose_candidate_grouping\<close>, lines 1053-1108. The inner loop
  evaluates every child of the producer's final stage, through the cache; the outer
  loop keeps the choices of the first producer with the largest positive benefit.
  \<^verbatim>\<open>children[prod]\<close> creates an empty entry when \<^verbatim>\<open>prod\<close> has none.
\<close>

fun choices_loop ::
  "Externals \<Rightarrow> Pipeline \<Rightarrow> Level \<Rightarrow> (FStage \<times> Group) list \<Rightarrow> string \<Rightarrow> FStage list
     \<Rightarrow> (GroupingChoice \<times> GroupConfig) list \<Rightarrow> (GroupingChoice \<times> GroupConfig) list
     \<Rightarrow> ((GroupingChoice \<times> GroupConfig) list \<times> (GroupingChoice \<times> GroupConfig) list) option"
  where
  "choices_loop ext p level gs prod_name [] cache choices = Some (choices, cache)"
| "choices_loop ext p level gs prod_name (c # cs) cache choices =
     (let cand_choice = (prod_name, c) in
      case map_of cache cand_choice of
        Some best_config \<Rightarrow>
          choices_loop ext p level gs prod_name cs cache (choices @ [(cand_choice, best_config)])
      | None \<Rightarrow>
          do {
            best_config \<leftarrow> evaluate_choice ext p gs cand_choice level;
            choices_loop ext p level gs prod_name cs (map_emplace cand_choice best_config cache)
              (choices @ [(cand_choice, best_config)])
          })"

fun choose_loop ::
  "Externals \<Rightarrow> Pipeline \<Rightarrow> Level \<Rightarrow> (string \<times> string) list \<Rightarrow> Partitioner
     \<Rightarrow> (GroupingChoice \<times> GroupConfig) list \<Rightarrow> int64
     \<Rightarrow> ((GroupingChoice \<times> GroupConfig) list \<times> Partitioner) option" where
  "choose_loop ext p level [] st best_choices best_benefit = Some (best_choices, st)"
| "choose_loop ext p level (c # cands) st best_choices best_benefit =
     do {
       prod_f \<leftarrow> get_element (env p) (fst c);
       let prod_stage = (name prod_f, length (updates prod_f));
       let ch = (case map_of (children st) prod_stage of
                   Some cs \<Rightarrow> children st
                 | None \<Rightarrow> map_assign prod_stage [] (children st));
       let cs = (case map_of (children st) prod_stage of Some cs \<Rightarrow> cs | None \<Rightarrow> []);
       r \<leftarrow> choices_loop ext p level (groups st) (name prod_f) cs (grouping_cache st) [];
       let st' = st\<lparr>children := ch, grouping_cache := snd r\<rparr>;
       overall_benefit \<leftarrow> estimate_benefit_choices ext p (group_costs st') (fst r) False True;
       if best_benefit <s overall_benefit
       then choose_loop ext p level cands st' (fst r) overall_benefit
       else choose_loop ext p level cands st' best_choices best_benefit
     }"

definition choose_candidate_grouping ::
  "Externals \<Rightarrow> Pipeline \<Rightarrow> (string \<times> string) list \<Rightarrow> Level \<Rightarrow> Partitioner
     \<Rightarrow> ((GroupingChoice \<times> GroupConfig) list \<times> Partitioner) option" where
  "choose_candidate_grouping ext p cands level st = choose_loop ext p level cands st [] 0"

text \<open>
  \<^verbatim>\<open>Partitioner::merge_groups(choice, eval, level)\<close>, lines 959-996. \<^verbatim>\<open>child_group\<close> and
  \<^verbatim>\<open>cand_group\<close> are references into \<^verbatim>\<open>groups\<close>; every pass of the loop reads both
  from the map and writes the child group back.
\<close>

fun absorb_loop ::
  "Level \<Rightarrow> FStage \<Rightarrow> FStage list \<Rightarrow> (FStage \<times> Group) list \<Rightarrow> (FStage \<times> Group) list option"
  where
  "absorb_loop level child [] gs = Some gs"
| "absorb_loop level child (cand # cands) gs =
     do {
       child_group \<leftarrow> get_element gs child;
       cand_group \<leftarrow> get_element gs cand;
       let cand_funcs = members cand_group;
       let inl =
         (case level of
            INLINE \<Rightarrow> fold (\<lambda>stg. set_insert (fst stg)) cand_funcs (inlined child_group)
          | FAST_MEM \<Rightarrow> fold set_insert (inlined cand_group) (inlined child_group));
       absorb_loop level child cands
         (map_assign child
            (child_group\<lparr>members := members child_group @ cand_funcs, inlined := inl\<rparr>) gs)
     }"

definition merge_groups_choice ::
  "Externals \<Rightarrow> Pipeline \<Rightarrow> GroupingChoice \<Rightarrow> GroupConfig \<Rightarrow> Level \<Rightarrow> Partitioner
     \<Rightarrow> Partitioner option" where
  "merge_groups_choice ext p choice eval level st =
     do {
       prod_f \<leftarrow> get_element (env p) (fst choice);
       let child = snd choice;
       child_group0 \<leftarrow> get_element (groups st) child;
       gs \<leftarrow> absorb_loop level child (stages_of prod_f) (groups st);
       child_group \<leftarrow> get_element gs child;
       let child_group = child_group\<lparr>tile_sizes := tile_sizes_c eval\<rparr>;
       a \<leftarrow> analyze_group ext p child_group;
       Some (st\<lparr>groups := map_assign child child_group gs,
                group_costs := map_assign child a (group_costs st)\<rparr>)
     }"

text \<open>One iteration of the loop of \<^verbatim>\<open>Partitioner::group\<close>, lines 1262-1386.\<close>

definition invalid_keys ::
  "FStage list \<Rightarrow> (GroupingChoice \<times> GroupConfig) list \<Rightarrow> GroupingChoice list" where
  "invalid_keys prod_group_children cache =
     fold (\<lambda>c keys.
             fold (\<lambda>entry keys.
                     if fst (fst entry) = fst c \<or> snd (fst entry) = c
                     then set_insert (fst entry) keys else keys)
               cache keys)
       prod_group_children []"

fun merge_all ::
  "Externals \<Rightarrow> Pipeline \<Rightarrow> Level \<Rightarrow> string \<Rightarrow> (GroupingChoice \<times> GroupConfig) list
     \<Rightarrow> Partitioner \<Rightarrow> Partitioner option" where
  "merge_all ext p level prod_name [] st = Some st"
| "merge_all ext p level prod_name (g # gs) st =
     (if fst (fst g) \<noteq> prod_name then None
      else
        do {
          st' \<leftarrow> merge_groups_choice ext p (fst g) (snd g) level st;
          merge_all ext p level prod_name gs st'
        })"

definition erase_stage :: "FStage list \<Rightarrow> FStage \<Rightarrow> Partitioner \<Rightarrow> Partitioner" where
  "erase_stage prod_group_children prod_group st =
     st\<lparr>groups := map_erase prod_group (groups st),
        group_costs := map_erase prod_group (group_costs st),
        children :=
          map (\<lambda>f. if prod_group \<in> set (snd f)
                    then (fst f, fold set_insert prod_group_children
                                   (set_erase prod_group (snd f)))
                    else f)
            (map_erase prod_group (children st))\<rparr>"

definition group_iteration ::
  "Externals \<Rightarrow> Pipeline \<Rightarrow> Level \<Rightarrow> Partitioner \<Rightarrow> (bool \<times> Partitioner) option" where
  "group_iteration ext p level st =
     do {
       pre_merge \<leftarrow> get_pipeline_cost st;
       cand \<leftarrow> candidates_loop p level (children st) (groups st) [];
       chosen \<leftarrow> choose_candidate_grouping ext p cand level st;
       let best = fst chosen;
       let st1 = snd chosen;
       if best = [] then Some (True, st1)
       else
         do {
           let prod_name = fst (fst (hd best));
           prod_f \<leftarrow> get_element (env p) prod_name;
           let num_stages = length (updates prod_f) + 1;
           let final_stage = (name prod_f, num_stages - 1);
           prod_group_children \<leftarrow> get_element (children st1) final_stage;
           let keys = invalid_keys prod_group_children (grouping_cache st1);
           let st2 = st1\<lparr>grouping_cache := fold map_erase keys (grouping_cache st1)\<rparr>;
           st3 \<leftarrow> merge_all ext p level prod_name best st2;
           let st4 = fold (erase_stage prod_group_children) (stages_of prod_f) st3;
           post_merge \<leftarrow> get_pipeline_cost st4;
           if arith post_merge + memory post_merge \<le>s arith pre_merge + memory pre_merge
           then Some (False, st4)
           else None
         }
     }"

text \<open>
  The loop of \<^verbatim>\<open>Partitioner::group\<close>. The first component of the result of an
  iteration is the flag \<^verbatim>\<open>fixpoint\<close>. A run that never reaches the fixpoint has no
  result, like a run that an assertion ends.
\<close>

partial_function (option) group :: "Externals \<Rightarrow> Pipeline \<Rightarrow> Level \<Rightarrow> Partitioner \<Rightarrow> Partitioner option"
  where
  "group ext p level st =
     do {
       r \<leftarrow> group_iteration ext p level st;
       if fst r then Some (snd r) else group ext p level (snd r)
     }"

section \<open>The schedule emitter\<close>

text \<open>\<^verbatim>\<open>get_base_name\<close>, lines 1932-1938: the part of a name after its last dot.\<close>

definition get_base_name :: "string \<Rightarrow> string" where
  "get_base_name nm =
     (if CHR ''.'' \<in> set nm then rev (takeWhile (\<lambda>c. c \<noteq> CHR ''.'') (rev nm)) else nm)"

text \<open>
  A \<^verbatim>\<open>Stage\<close> handle is represented by its name and the dimensions of its schedule.
  The directives applied through a handle are recorded in order, next to the
  transcript \<^verbatim>\<open>sched\<close>, the set \<^verbatim>\<open>rvars\<close>, the map \<^verbatim>\<open>estimates\<close> and the user
  warnings.
\<close>

record Stage =
  stage_name :: string
  stage_dims :: "Dim list"

datatype Directive =
    Split string string string string int32
  | Vectorize string string

record Emitter =
  rvars :: "string list"
  stg_estimates :: "(string \<times> int64) list"
  sched :: string
  applied :: "Directive list"
  warnings :: "string list"

text \<open>
  \<^verbatim>\<open>split_dim\<close>, lines 1940-1965; the result is the pair \<^verbatim>\<open>(inner, outer)\<close> of the new
  variable names and the updated state. \<open>Split h v outer inner factor\<close> records
  \<^verbatim>\<open>f_handle.split(v, outer, inner, factor)\<close>.
\<close>

definition split_dim ::
  "Externals \<Rightarrow> Stage \<Rightarrow> string \<Rightarrow> int32 \<Rightarrow> string \<Rightarrow> string \<Rightarrow> Emitter
     \<Rightarrow> ((string \<times> string) \<times> Emitter) option" where
  "split_dim ext f_handle arg_name factor in_suffix out_suffix em =
     (let inner_name = arg_name @ in_suffix;
          outer_name = arg_name @ out_suffix;
          sched1 = sched em
            @ ''Var '' @ inner_name @ [CHR ''('', CHR 0x22] @ outer_name
                @ [CHR 0x22, CHR '')''] @ [CHR '';'', CHR 0x0A]
            @ ''Var '' @ outer_name @ [CHR ''('', CHR 0x22] @ outer_name
                @ [CHR 0x22, CHR '')''] @ [CHR '';'', CHR 0x0A];
          sched2 = sched1 @ stage_name f_handle @ ''.split('' @ arg_name @ '','' @ outer_name
                     @ '','' @ inner_name @ '','' @ to_string ext factor
                     @ [CHR '')'', CHR '';'', CHR 0x0A]
      in
      case map_of (stg_estimates em) arg_name of
        None \<Rightarrow> None
      | Some est \<Rightarrow>
          if est = unknown ext then None
          else
            (let est1 = map_assign inner_name (scast factor) (stg_estimates em);
                 est2 = map_assign outer_name (ceil_div_float ext est factor) est1;
                 est3 = map_erase arg_name est2
             in Some ((inner_name, outer_name),
                      em\<lparr>stg_estimates := est3, sched := sched2,
                         applied := applied em
                           @ [Split (stage_name f_handle) arg_name outer_name inner_name factor]\<rparr>)))"

text \<open>
  \<^verbatim>\<open>vectorize_stage\<close>, lines 1967-2022. The vector length is the maximum of the
  natural vector sizes of the output types, starting from 0.
\<close>

definition vec_len :: "Externals \<Rightarrow> Function \<Rightarrow> int32" where
  "vec_len ext func =
     fold (\<lambda>type v. max_int32 v (natural_vector_size ext type)) (output_types func) 0"

text \<open>The loop that looks for the dimension to vectorize; the result is its index.\<close>

fun find_vec_dim ::
  "Externals \<Rightarrow> Definition \<Rightarrow> Function \<Rightarrow> Emitter \<Rightarrow> Dim list \<Rightarrow> nat \<Rightarrow> nat option" where
  "find_vec_dim ext def func em [] d = None"
| "find_vec_dim ext def func em (dm # dms) d =
     (let dim_name = get_base_name (var dm);
          can_vectorize =
            (if dim_name \<in> set (rvars em)
             then can_parallelize_rvar ext dim_name (name func) def else True)
      in
      case map_of (stg_estimates em) dim_name of
        Some est \<Rightarrow>
          if est \<noteq> unknown ext \<and> can_vectorize \<and> (scast (vec_len ext func) :: int64) \<le>s est
          then Some d
          else find_vec_dim ext def func em dms (Suc d)
      | None \<Rightarrow> find_vec_dim ext def func em dms (Suc d))"

definition vectorize_stage ::
  "Externals \<Rightarrow> Stage \<Rightarrow> Definition \<Rightarrow> Function \<Rightarrow> Emitter \<Rightarrow> Emitter option" where
  "vectorize_stage ext f_handle def func em =
     (case find_vec_dim ext def func em (butlast (stage_dims f_handle)) 0 of
        None \<Rightarrow> Some em
      | Some vec_dim_index \<Rightarrow>
          (let vec_dim_name = get_base_name (var (stage_dims f_handle ! vec_dim_index));
               is_rvar = (vec_dim_name \<in> set (rvars em))
           in
           do {
             r \<leftarrow> split_dim ext f_handle vec_dim_name (vec_len ext func) ''_vi'' ''_vo'' em;
             let split_vars = fst r;
             let em1 = snd r;
             let em2 = em1\<lparr>applied := applied em1
                                @ [Vectorize (stage_name f_handle) (fst split_vars)],
                            sched := sched em1 @ stage_name f_handle @ ''.vectorize(''
                                @ fst split_vars @ [CHR '')'', CHR '';'', CHR 0x0A]\<rparr>;
             let em3 = (if is_rvar
                        then em2\<lparr>rvars := set_insert (snd split_vars)
                                              (set_insert (fst split_vars)
                                                 (set_erase vec_dim_name (rvars em2)))\<rparr>
                        else em2);
             Some (if vec_dim_index > 0
                   then em3\<lparr>warnings := warnings em3
                              @ [''Outer dim vectorization of var '' @ vec_dim_name
                                 @ '' in function '' @ stage_name f_handle @ [CHR 0x0A]]\<rparr>
                   else em3)
           }))"

section \<open>The driver\<close>

text \<open>\<^verbatim>\<open>set_schedule_defaults\<close>, lines 75-86.\<close>

definition root_levels :: "Definition \<Rightarrow> Definition" where
  "root_levels def = def\<lparr>store_level := Root, compute_level := Root\<rparr>"

definition set_schedule_defaults :: "Env \<Rightarrow> Env" where
  "set_schedule_defaults e =
     map (\<lambda>kv. (fst kv, (snd kv)\<lparr>definition_f := root_levels (definition_f (snd kv)),
                                  updates := map root_levels (updates (snd kv))\<rparr>)) e"

text \<open>
  \<^verbatim>\<open>validate_no_partial_schedules\<close>, lines 2540-2628. A failed \<^verbatim>\<open>user_assert\<close> or
  \<^verbatim>\<open>internal_assert\<close> ends the run. The sizes are unsigned: with an empty list of
  dimensions \<^verbatim>\<open>dims.size() - 1\<close> wraps, and the run ends at the first assertion or
  out-of-range read that follows. The search for a dimension among the arguments reads
  the name of every argument it passes, which must be a variable.
\<close>

fun check_pure_args :: "Expr list \<Rightarrow> Dim list \<Rightarrow> bool" where
  "check_pure_args [] ds = True"
| "check_pure_args (Variable v # as) (d # ds) = (v = var d \<and> check_pure_args as ds)"
| "check_pure_args as ds = False"

fun find_arg :: "string \<Rightarrow> Expr list \<Rightarrow> nat \<Rightarrow> nat option" where
  "find_arg v [] i = None"
| "find_arg v (Variable w # as) i = (if v = w then Some i else find_arg v as (Suc i))"
| "find_arg v as i = None"

fun check_update_vars :: "Expr list \<Rightarrow> Dim list \<Rightarrow> nat option \<Rightarrow> bool" where
  "check_update_vars as [] last_index = True"
| "check_update_vars as (d # ds) last_index =
     (if is_rvar d then False
      else
        (case find_arg (var d) as 0 of
           None \<Rightarrow> False
         | Some current_index \<Rightarrow>
             (case last_index of None \<Rightarrow> True | Some l \<Rightarrow> l < current_index)
             \<and> check_update_vars as ds (Some current_index)))"

definition validate_stage :: "Function \<Rightarrow> nat \<Rightarrow> bool" where
  "validate_stage f stage =
     (case get_stage_definition f stage of
        None \<Rightarrow> False
      | Some def \<Rightarrow>
          schedule_splits def = [] \<and> schedule_bounds def = []
          \<and> list_all (\<lambda>d. for_type d = Serial) (dims def)
          \<and> (has_extern_definition f
             \<or> (if stage = 0 then
                   specializations def = []
                   \<and> length (dims def) = length (def_args def) + 1
                   \<and> check_pure_args (def_args def) (dims def)
                 else
                   dims def \<noteq> []
                   \<and> length (schedule_rvars def) \<le> length (dims def) - 1
                   \<and> list_all2 (\<lambda>d r. is_rvar d \<and> var d = r)
                        (take (length (schedule_rvars def)) (dims def)) (schedule_rvars def)
                   \<and> length (dims def) - length (schedule_rvars def) - 1
                        \<le> length (def_args (definition_f f))
                   \<and> check_update_vars (def_args (definition_f f))
                        (drop (length (schedule_rvars def)) (butlast (dims def))) None)))"

definition validate_no_partial_schedules :: "Function \<Rightarrow> unit option" where
  "validate_no_partial_schedules f =
     (if list_all (validate_stage f) [0..<length (updates f) + 1] then Some () else None)"

text \<open>
  \<^verbatim>\<open>generate_schedules\<close>, lines 2635-2722. The collaborators of the driver are
  parameters: \<open>find_transitive_calls\<close> of the graph extractor, and the two phases
  \<^verbatim>\<open>get_pipeline_bounds\<close> (lines 518-561) and \<^verbatim>\<open>Partitioner::generate_cpu_schedule\<close>
  (lines 2368-2399), which run only after the estimates have been checked. The
  realization order and the bounds of the function values are computed before the
  check and are passed on to the region analyzer only.
\<close>

record Driver =
  find_transitive_calls :: "Function \<Rightarrow> Env"
  get_pipeline_bounds :: "Env \<Rightarrow> Function list \<Rightarrow> (string \<times> Box) list option"
  generate_cpu_schedule :: "Pipeline \<Rightarrow> Partitioner \<Rightarrow> (string \<times> Env) option"

record Outcome =
  transcript :: string
  scheduled :: Env
  user_warnings :: "string list"

definition build_env :: "Driver \<Rightarrow> Function list \<Rightarrow> Env" where
  "build_env drv outs =
     fold (\<lambda>f e. fold (\<lambda>kv. map_emplace (fst kv) (snd kv)) (find_transitive_calls drv f) e)
       outs []"

fun validate_env :: "Env \<Rightarrow> unit option" where
  "validate_env [] = Some ()"
| "validate_env (kv # e) =
     do { _ \<leftarrow> validate_no_partial_schedules (snd kv); validate_env e }"

definition estimates_warning :: string where
  "estimates_warning =
     ''Please provide estimates for each dimension of the pipeline output functions.''
       @ [CHR 0x0A]"

definition run_partitioner ::
  "Driver \<Rightarrow> Externals \<Rightarrow> MachineParams \<Rightarrow> Env \<Rightarrow> Function list \<Rightarrow> Outcome option" where
  "run_partitioner drv ext arch e outs =
     do {
       pb \<leftarrow> get_pipeline_bounds drv e outs;
       let p = \<lparr>env = e, pipeline_bounds = pb, arch_params = arch, outputs = outs\<rparr>;
       part \<leftarrow> initialize_groups ext p (new_Partitioner ext p);
       part \<leftarrow> group ext p INLINE part;
       part \<leftarrow> group ext p FAST_MEM (part\<lparr>grouping_cache := []\<rparr>);
       r \<leftarrow> generate_cpu_schedule drv p part;
       Some \<lparr>transcript = fst r, scheduled = snd r, user_warnings = []\<rparr>
     }"

definition generate_schedules ::
  "Driver \<Rightarrow> Externals \<Rightarrow> MachineParams \<Rightarrow> Function list \<Rightarrow> Outcome option" where
  "generate_schedules drv ext arch outs =
     (let e = build_env drv outs in
      do {
        _ \<leftarrow> validate_env e;
        if \<not> check_estimates_on_outputs outs
        then Some \<lparr>transcript = [], scheduled = set_schedule_defaults e,
                    user_warnings = [estimates_warning]\<rparr>
        else run_partitioner drv ext arch e outs
      })"

section \<open>Auxiliary notions of the statements\<close>

text \<open>
  The bound of one dimension as \<open>get_bounds_from_tile_sizes\<close> chooses it, given the
  bound of the dimension in the whole pipeline.
\<close>

definition tile_bound ::
  "Externals \<Rightarrow> (string \<times> int32) list \<Rightarrow> string \<Rightarrow> Interval \<Rightarrow> Interval" where
  "tile_bound ext tiles v bound =
     (case map_of tiles v of
        Some sz \<Rightarrow> if (scast (2 * sz) :: int64) \<le>s get_extent ext bound
                   then \<lparr>min_e = IntImm 0, max_e = IntImm (sint (sz - 1))\<rparr> else bound
      | None \<Rightarrow> bound)"

text \<open>
  The reading of the specification's words "the widest output type": the first output
  type with the largest number of bits.
\<close>

definition widest_output_type :: "Function \<Rightarrow> Type" where
  "widest_output_type func =
     fold (\<lambda>t w. if bits w < bits t then t else w) (tl (output_types func))
       (hd (output_types func))"

text \<open>
  The sum over all groups of the arithmetic plus the memory cost recorded for the
  group, in 64-bit arithmetic.
\<close>

definition group_cost_sum :: "Partitioner \<Rightarrow> int64" where
  "group_cost_sum st =
     sum_list (map (\<lambda>g. case map_of (group_costs st) (fst g) of
                          Some a \<Rightarrow> arith (cost a) + memory (cost a)
                        | None \<Rightarrow> 0)
                 (groups st))"

text \<open>
  The benefit of a tile configuration over the analysis without tiles, as
  \<open>find_best_tile_config\<close> asks for it (\<open>no_redundant_work\<close> false, \<open>ensure_parallelism\<close>
  true), read as a signed number; and the range of costs in which the sums and
  differences of \<open>estimate_benefit\<close> do not overflow.
\<close>

definition tile_analysis :: "Externals \<Rightarrow> Pipeline \<Rightarrow> Group \<Rightarrow> (string \<times> int32) list \<Rightarrow> GroupAnalysis"
  where
  "tile_analysis ext p g config = the (analyze_group ext p (g\<lparr>tile_sizes := config\<rparr>))"

definition tile_benefit :: "Externals \<Rightarrow> Pipeline \<Rightarrow> Group \<Rightarrow> (string \<times> int32) list \<Rightarrow> int" where
  "tile_benefit ext p g config =
     sint (estimate_benefit ext (arch_params p) (tile_analysis ext p g [])
             (tile_analysis ext p g config) False True)"

definition cost_in_range :: "Externals \<Rightarrow> GroupAnalysis \<Rightarrow> bool" where
  "cost_in_range ext a =
     ((arith (cost a) = unknown ext
         \<or> (0 \<le> sint (arith (cost a)) \<and> sint (arith (cost a)) < 2 ^ 61))
      \<and> (memory (cost a) = unknown ext
         \<or> (0 \<le> sint (memory (cost a)) \<and> sint (memory (cost a)) < 2 ^ 61)))"

text \<open>
  The position \<open>i\<close> is the first one of the list at which \<open>B\<close> is largest: no element
  has a larger value, and every earlier element has a smaller one.
\<close>

definition first_maximum :: "('c \<Rightarrow> int) \<Rightarrow> 'c list \<Rightarrow> nat \<Rightarrow> bool" where
  "first_maximum B cs i \<longleftrightarrow>
     i < length cs
     \<and> (\<forall>j<length cs. B (cs ! j) \<le> B (cs ! i))
     \<and> (\<forall>j<i. B (cs ! j) < B (cs ! i))"








text \<open>
  An analysis is eligible as the new grouping of \<open>estimate_benefit\<close> with
  \<open>ensure_parallelism\<close> set when its parallelism reaches that of the machine and both of
  its costs are known; its total cost is the arithmetic plus the memory cost.
\<close>

definition eligible :: "Externals \<Rightarrow> MachineParams \<Rightarrow> GroupAnalysis \<Rightarrow> bool" where
  "eligible ext arch a \<longleftrightarrow>
     \<not> parallelism a <s mp_parallelism arch
     \<and> arith (cost a) \<noteq> unknown ext \<and> memory (cost a) \<noteq> unknown ext"

definition known_cost :: "Externals \<Rightarrow> GroupAnalysis \<Rightarrow> bool" where
  "known_cost ext a \<longleftrightarrow> arith (cost a) \<noteq> unknown ext \<and> memory (cost a) \<noteq> unknown ext"

definition total_cost :: "GroupAnalysis \<Rightarrow> int" where
  "total_cost a = sint (arith (cost a)) + sint (memory (cost a))"

section \<open>An example pipeline\<close>

text \<open>
  A pipeline of two functions for the concrete instances below: the pure function
  \<open>f\<close> and the output \<open>g\<close>, whose update definition reads \<open>f\<close> under a reduction
  variable \<open>r\<close>. The collaborators are instantiated with simple integer cost
  functions: an extent is \<open>max - min + 1\<close> of two literals, a cost is a constant per
  point of a region.
\<close>

definition ex_dim :: "string \<Rightarrow> bool \<Rightarrow> Dim" where
  "ex_dim v r = \<lparr>var = v, is_rvar = r, for_type = Serial\<rparr>"

definition ex_def :: "Dim list \<Rightarrow> string list \<Rightarrow> Definition" where
  "ex_def ds rs =
     \<lparr>dims = ds @ [ex_dim ''__outermost'' False], store_level = Inlined,
      compute_level = Inlined, schedule_splits = [], schedule_bounds = [],
      schedule_rvars = rs, specializations = [], def_args = [Variable ''x'']\<rparr>"

definition ex_int32 :: Type where
  "ex_int32 = \<lparr>bits = 32, lanes = 1\<rparr>"

definition ex_f :: Function where
  "ex_f = \<lparr>name = ''f'', args = [''x''], definition_f = ex_def [ex_dim ''x'' False] [],
           updates = [], estimates = [], output_types = [ex_int32],
           has_extern_definition = False\<rparr>"

definition ex_g :: Function where
  "ex_g = \<lparr>name = ''g'', args = [''x''], definition_f = ex_def [ex_dim ''x'' False] [],
           updates = [ex_def [ex_dim ''r'' True, ex_dim ''x'' False] [''r'']],
           estimates = [\<lparr>var_b = ''x'', min_b = IntImm 0, extent_b = IntImm 1024\<rparr>],
           output_types = [ex_int32], has_extern_definition = False\<rparr>"

definition ex_interval :: "int \<Rightarrow> int \<Rightarrow> Interval" where
  "ex_interval a b = \<lparr>min_e = IntImm a, max_e = IntImm b\<rparr>"

definition ex_unknown :: int64 where
  "ex_unknown = 9223372036854775808"

definition ex_extent :: "Interval \<Rightarrow> int64" where
  "ex_extent i =
     (case min_e i of
        IntImm a \<Rightarrow> (case max_e i of IntImm b \<Rightarrow> word_of_int (b - a + 1) | _ \<Rightarrow> ex_unknown)
      | _ \<Rightarrow> ex_unknown)"

definition ex_points :: "DimBounds \<Rightarrow> int64" where
  "ex_points b = fold (\<lambda>kv n. n * ex_extent (snd kv)) b 1"

definition ex_box_size :: "Box \<Rightarrow> int64" where
  "ex_box_size b = fold (\<lambda>i n. n * ex_extent i) b 1"

definition ex_ext :: Externals where
  "ex_ext =
     \<lparr>unknown = ex_unknown,
      get_extent = ex_extent,
      get_stage_bounds =
        (\<lambda>f s b. if s = 0 then b else map_assign ''r'' (ex_interval 0 0) b),
      can_parallelize_rvar = (\<lambda>v fname def. v \<noteq> ''r''),
      regions_required =
        (\<lambda>f s b prods only.
           case map_of b ''x'' of
             Some i \<Rightarrow> Some [(''f'', [i]), (''g'', [i])]
           | None \<Rightarrow> None),
      simplify = (\<lambda>e. e),
      make_intersection = (\<lambda>a b. a),
      natural_vector_size = (\<lambda>t. word_of_nat (128 div bits t)),
      to_string = (\<lambda>n. ''8''),
      get_parents = (\<lambda>fname s. if fname = ''g'' \<and> s = 1 then [''f''] else []),
      region_cost =
        (\<lambda>regs inl.
           \<lparr>arith = fold (\<lambda>reg n. if fst reg \<in> set inl then n
                                    else n + 10 * ex_box_size (snd reg)) regs 0,
            memory = 0\<rparr>),
      stage_region_cost =
        (\<lambda>fname s b inl.
           \<lparr>arith = (if fname = ''g'' \<and> s = 1 \<and> ''f'' \<in> set inl then 15
                     else if fname = ''g'' then 5 else 10) * ex_points b,
            memory = 0\<rparr>),
      box_size = ex_box_size,
      detailed_load_costs =
        (\<lambda>regs inl. map (\<lambda>reg. (fst reg, 4 * ex_box_size (snd reg)))
                       (filter (\<lambda>reg. fst reg \<notin> set inl) regs)),
      stage_detailed_load_costs =
        (\<lambda>fname s b inl.
           if fname = ''g'' \<and> s = 1 \<and> ''f'' \<notin> set inl
           then [(''f'', 4 * ex_points b), (''g'', 4 * ex_points b)]
           else [(fname, 4 * ex_points b)]),
      combine_load_costs =
        (\<lambda>a b. fold (\<lambda>kv m. map_assign (fst kv)
                                ((case map_of m (fst kv) of Some v \<Rightarrow> v | None \<Rightarrow> 0) + snd kv) m)
                  b a),
      region_size = (\<lambda>fname b. 4 * ex_box_size b),
      input_region_size = (\<lambda>fname b. 4 * ex_box_size b),
      everything = \<lparr>min_e = Variable ''neg_inf'', max_e = Variable ''pos_inf''\<rparr>,
      ceil_div_float = (\<lambda>extent sz. word_of_int ((sint extent + sint sz - 1) div sint sz)),
      cost_factor = (\<lambda>arch footprint. if footprint <s 1024 then 1 else 2),
      initial_factor = (\<lambda>arch footprint. 1)\<rparr>"

definition ex_arch :: MachineParams where
  "ex_arch = \<lparr>mp_parallelism = 4, mp_last_level_cache_size = 1024, mp_balance = 2\<rparr>"

definition ex_pipeline :: Pipeline where
  "ex_pipeline =
     \<lparr>env = [(''f'', ex_f), (''g'', ex_g)],
      pipeline_bounds = [(''f'', [ex_interval 0 1023]), (''g'', [ex_interval 0 1023])],
      arch_params = ex_arch,
      outputs = [ex_g]\<rparr>"


definition ex_initial :: Partitioner where
  "ex_initial =
     \<lparr>groups =
        [((''f'', 0), \<lparr>output_stage = (''f'', 0), members = [(''f'', 0)], inlined = [],
                     tile_sizes = []\<rparr>),
         ((''g'', 0), \<lparr>output_stage = (''g'', 0), members = [(''g'', 0)], inlined = [],
                     tile_sizes = []\<rparr>),
         ((''g'', 1), \<lparr>output_stage = (''g'', 1), members = [(''g'', 1)], inlined = [],
                     tile_sizes = []\<rparr>)],
      children = [((''f'', 0), [(''g'', 1)]), ((''g'', 0), [(''g'', 1)])],
      group_costs =
        [((''f'', 0), \<lparr>cost = \<lparr>arith = 10240, memory = 8192\<rparr>, parallelism = 1\<rparr>),
         ((''g'', 0), \<lparr>cost = \<lparr>arith = 5120, memory = 8192\<rparr>, parallelism = 1\<rparr>),
         ((''g'', 1), \<lparr>cost = \<lparr>arith = 5120, memory = 16384\<rparr>, parallelism = 1\<rparr>)],
      grouping_cache = []\<rparr>"

definition ex_inlined :: Partitioner where
  "ex_inlined =
     \<lparr>groups =
        [((''g'', 0), \<lparr>output_stage = (''g'', 0), members = [(''g'', 0)], inlined = [],
                     tile_sizes = []\<rparr>),
         ((''g'', 1), \<lparr>output_stage = (''g'', 1), members = [(''g'', 1), (''f'', 0)],
                     inlined = [''f''], tile_sizes = [(''r'', 1), (''x'', 1)]\<rparr>)],
      children = [((''g'', 0), [(''g'', 1)])],
      group_costs =
        [((''g'', 0), \<lparr>cost = \<lparr>arith = 5120, memory = 8192\<rparr>, parallelism = 1\<rparr>),
         ((''g'', 1), \<lparr>cost = \<lparr>arith = 15360, memory = 8192\<rparr>, parallelism = 1024\<rparr>)],
      grouping_cache = []\<rparr>"


definition ex_driver :: Driver where
  "ex_driver =
     \<lparr>find_transitive_calls = (\<lambda>f. [(''f'', ex_f), (name f, f)]),
      get_pipeline_bounds =
        (\<lambda>e outs. Some (map (\<lambda>kv. (fst kv, map (\<lambda>a. ex_interval 0 1023) (args (snd kv)))) e)),
      generate_cpu_schedule = (\<lambda>p part. Some ([], env p))\<rparr>"


text \<open>
  A function with an 8-bit and a 32-bit output, the handle of its pure stage, and the
  state of the emitter in front of \<open>vectorize_stage\<close> with an estimate of 1024 for \<open>x\<close>.
\<close>

definition ex_tuple :: Function where
  "ex_tuple = ex_f\<lparr>name := ''h'', output_types := [\<lparr>bits = 8, lanes = 1\<rparr>, ex_int32]\<rparr>"

definition ex_handle :: Stage where
  "ex_handle = \<lparr>stage_name = ''h'', stage_dims = dims (definition_f ex_tuple)\<rparr>"

definition ex_emitter :: Emitter where
  "ex_emitter =
     \<lparr>rvars = [], stg_estimates = [(''x'', 1024)], sched = [], applied = [], warnings = []\<rparr>"

definition ex_emitter_rvar :: Emitter where
  "ex_emitter_rvar = ex_emitter\<lparr>rvars := [''x'']\<rparr>"

text \<open>
  The group of the update stage of \<open>g\<close> alone, and a cost oracle that reports no load
  at all.
\<close>

definition ex_group :: Group where
  "ex_group =
     \<lparr>output_stage = (''g'', 1), members = [(''g'', 1)], inlined = [], tile_sizes = []\<rparr>"

definition ex_ext_no_loads :: Externals where
  "ex_ext_no_loads = ex_ext\<lparr>stage_detailed_load_costs := (\<lambda>fname s b inl. [])\<rparr>"

text \<open>
  An output with the two pure arguments \<open>x\<close> and \<open>y\<close> and two estimates, both for \<open>x\<close>.
\<close>

definition ex_two_dims :: Function where
  "ex_two_dims =
     \<lparr>name = ''g'', args = [''x'', ''y''],
      definition_f =
        (ex_def [ex_dim ''x'' False, ex_dim ''y'' False] [])
          \<lparr>def_args := [Variable ''x'', Variable ''y'']\<rparr>,
      updates = [],
      estimates = [\<lparr>var_b = ''x'', min_b = IntImm 0, extent_b = IntImm 1024\<rparr>,
                   \<lparr>var_b = ''x'', min_b = IntImm 0, extent_b = IntImm 512\<rparr>],
      output_types = [ex_int32], has_extern_definition = False\<rparr>"

text \<open>The group of \<open>f\<close> and the update stage of \<open>g\<close>, before a tile size is chosen.\<close>

definition ex_merged :: Group where
  "ex_merged =
     \<lparr>output_stage = (''g'', 1), members = [(''f'', 0), (''g'', 1)], inlined = [],
      tile_sizes = []\<rparr>"



section \<open>Properties\<close>

subsection \<open>Containers\<close>

lemma map_of_map_assign:
  "map_of (map_assign k v m) k' = (if k' = k then Some v else map_of m k')"
  by (induction m) auto

lemma map_of_map_emplace:
  "map_of (map_emplace k v m) k' =
     (if k' = k \<and> map_of m k = None then Some v else map_of m k')"
  by (simp add: map_emplace_def map_of_map_assign)

lemma fst_set_map_assign: "fst ` set (map_assign k v m) = insert k (fst ` set m)"
  by (induction m) auto

lemma map_assign_append:
  "\<forall>k'\<in>fst ` set m. k' < k \<Longrightarrow> map_assign k v m = m @ [(k, v)]"
  by (induction m) auto

lemma map_of_eq_None_fst: "map_of m k = None \<longleftrightarrow> k \<notin> fst ` set m"
  by (simp add: map_of_eq_None_iff)

lemma set_set_insert: "set (set_insert x xs) = insert x (set xs)"
  by (auto simp: set_insert_def set_insort_key)

lemma set_set_erase: "set (set_erase x xs) = set xs - {x}"
  by (auto simp: set_erase_def)

subsection \<open>The pairwise benefit\<close>

text \<open>
  C3. For all analyses \<open>old\<close> and \<open>new\<close> and both flags, \<open>estimate_benefit\<close> returns
  \<open>(old.arith - new.arith) + (old.memory - new.memory)\<close>, computed in 64-bit
  arithmetic, except that it returns \<open>unknown\<close> when one of the four cost fields is
  \<open>unknown\<close>, or when \<open>ensure_parallelism\<close> holds and the parallelism of \<open>new\<close> is below
  that of the machine, or when \<open>no_redundant_work\<close> holds and the arithmetic benefit is
  negative.
\<close>

theorem estimate_benefit_pairwise:
  "estimate_benefit ext arch old new no_redundant_work ensure_parallelism =
     (if arith (cost old) = unknown ext \<or> memory (cost old) = unknown ext
         \<or> arith (cost new) = unknown ext \<or> memory (cost new) = unknown ext
         \<or> (ensure_parallelism \<and> parallelism new <s mp_parallelism arch)
         \<or> (no_redundant_work \<and> arith (cost old) - arith (cost new) <s 0)
      then unknown ext
      else (arith (cost old) - arith (cost new)) + (memory (cost old) - memory (cost new)))"
  by (simp add: estimate_benefit_def Let_def)

subsection \<open>The check of the output estimates\<close>







subsection \<open>The bounds of a tile\<close>

lemma scast_twice_tile:
  fixes sz :: int32
  assumes "- (2 ^ 30) \<le> sint sz" "sint sz < 2 ^ 30"
  shows "sint (scast (2 * sz) :: int64) = 2 * sint sz"
proof -
  have "sint (scast (2 * sz) :: int64) = sint (2 * sz)"
    by (rule sint_up_scast) (simp add: is_up)
  also have "\<dots> = signed_take_bit 31 (2 * sint sz)"
    by (simp add: sint_word_mult)
  also have "\<dots> = 2 * sint sz"
    using assms by (intro signed_take_bit_int_eq_self) simp_all
  finally show ?thesis .
qed

lemma sint_tile_minus_one:
  fixes sz :: int32
  assumes "- (2 ^ 30) \<le> sint sz"
  shows "sint (sz - 1) = sint sz - 1"
proof -
  have "sint (sz - 1) = signed_take_bit 31 (sint sz - 1)"
    by (simp add: sint_word_ariths)
  also have "\<dots> = sint sz - 1"
    using assms sint_less [of sz] by (intro signed_take_bit_int_eq_self) simp_all
  finally show ?thesis .
qed

lemma tile_bounds_loop_total:
  assumes "\<forall>d\<in>set ds. map_of def_bounds (var d) \<noteq> None"
  shows "\<exists>bounds'. tile_bounds_loop ext def_bounds tiles ds bounds = Some bounds' \<and>
           (\<forall>v. map_of bounds' v =
              (if v \<in> var ` set ds
               then Some (tile_bound ext tiles v (the (map_of def_bounds v)))
               else map_of bounds v)) \<and>
           fst ` set bounds' = var ` set ds \<union> fst ` set bounds"
  using assms
proof (induction ds arbitrary: bounds)
  case Nil
  then show ?case by simp
next
  case (Cons d ds)
  from Cons.prems obtain b where b: "map_of def_bounds (var d) = Some b" by auto
  have rest: "\<forall>d\<in>set ds. map_of def_bounds (var d) \<noteq> None" using Cons.prems by simp
  let ?nb = "map_assign (var d) (tile_bound ext tiles (var d) b) bounds"
  have step: "tile_bounds_loop ext def_bounds tiles (d # ds) bounds =
                tile_bounds_loop ext def_bounds tiles ds ?nb"
    by (simp add: get_element_def b tile_bound_def Let_def split: option.splits)
  from Cons.IH [OF rest, of ?nb] obtain bounds' where
    r: "tile_bounds_loop ext def_bounds tiles ds ?nb = Some bounds'" and
    m: "\<forall>v. map_of bounds' v =
              (if v \<in> var ` set ds
               then Some (tile_bound ext tiles v (the (map_of def_bounds v)))
               else map_of ?nb v)" and
    k: "fst ` set bounds' = var ` set ds \<union> fst ` set ?nb"
    by blast
  show ?case
    unfolding step using r m k b by (auto simp: map_of_map_assign fst_set_map_assign)
qed

lemma tile_bound_int:
  assumes "\<forall>sz\<in>snd ` set tiles. - (2 ^ 30) \<le> sint sz \<and> sint sz < 2 ^ 30"
  shows "tile_bound ext tiles v bound =
           (case map_of tiles v of
              Some sz \<Rightarrow> if 2 * sint sz \<le> sint (get_extent ext bound)
                         then \<lparr>min_e = IntImm 0, max_e = IntImm (sint sz - 1)\<rparr> else bound
            | None \<Rightarrow> bound)"
proof (cases "map_of tiles v")
  case None
  then show ?thesis by (simp add: tile_bound_def)
next
  case (Some sz)
  then have "(v, sz) \<in> set tiles" by (rule map_of_SomeD)
  then have "sz \<in> snd ` set tiles" by force
  with assms have r: "- (2 ^ 30) \<le> sint sz" "sint sz < 2 ^ 30" by auto
  show ?thesis
    using Some r
    by (simp add: tile_bound_def word_sle_eq scast_twice_tile sint_tile_minus_one)
qed

text \<open>
  C8. For every stage and every map of tile sizes (each size between \<open>-2^30\<close> and
  \<open>2^30\<close>, so that \<open>2 * size\<close> does not overflow), \<open>get_bounds_from_tile_sizes\<close>
  returns a bound for exactly the loop dimensions of the stage other than
  \<open>__outermost\<close>, and the bound of a dimension \<open>v\<close> is \<open>[0, tile_sizes[v] - 1]\<close> when
  \<open>tile_sizes\<close> contains \<open>v\<close> and the extent of the dimension's estimated bound is at
  least \<open>2 * tile_sizes[v]\<close>, and the estimated bound itself in every other case.
\<close>

theorem tile_bounds_from_tile_sizes:
  assumes "get_element (env p) (fst s) = Some f"
      and "get_stage_definition f (snd s) = Some def"
      and "get_bounds ext p s = Some def_bounds"
      and "\<forall>d\<in>set (loop_dims def). map_of def_bounds (var d) \<noteq> None"
      and "\<forall>sz\<in>snd ` set tiles. - (2 ^ 30) \<le> sint sz \<and> sint sz < 2 ^ 30"
  shows "\<exists>tile_bounds.
           get_bounds_from_tile_sizes ext p s tiles = Some tile_bounds
           \<and> fst ` set tile_bounds = var ` set (loop_dims def)
           \<and> (\<forall>d\<in>set (loop_dims def).
                 map_of tile_bounds (var d) =
                   Some (let bound = the (map_of def_bounds (var d)) in
                         case map_of tiles (var d) of
                           Some sz \<Rightarrow>
                             if 2 * sint sz \<le> sint (get_extent ext bound)
                             then \<lparr>min_e = IntImm 0, max_e = IntImm (sint sz - 1)\<rparr>
                             else bound
                         | None \<Rightarrow> bound))"
proof -
  from tile_bounds_loop_total [OF assms(4), of ext tiles "[]"] obtain tb where
    r: "tile_bounds_loop ext def_bounds tiles (loop_dims def) [] = Some tb" and
    m: "\<forall>v. map_of tb v =
              (if v \<in> var ` set (loop_dims def)
               then Some (tile_bound ext tiles v (the (map_of def_bounds v)))
               else map_of ([] :: DimBounds) v)" and
    k: "fst ` set tb = var ` set (loop_dims def) \<union> fst ` set ([] :: DimBounds)"
    by blast
  have "get_bounds_from_tile_sizes ext p s tiles = Some tb"
    using assms(1-3) r by (simp add: get_bounds_from_tile_sizes_def)
  moreover have "fst ` set tb = var ` set (loop_dims def)" using k by simp
  moreover have "\<forall>d\<in>set (loop_dims def).
                 map_of tb (var d) =
                   Some (let bound = the (map_of def_bounds (var d)) in
                         case map_of tiles (var d) of
                           Some sz \<Rightarrow>
                             if 2 * sint sz \<le> sint (get_extent ext bound)
                             then \<lparr>min_e = IntImm 0, max_e = IntImm (sint sz - 1)\<rparr>
                             else bound
                         | None \<Rightarrow> bound)"
    using m by (simp add: tile_bound_int [OF assms(5)] Let_def)
  ultimately show ?thesis by blast
qed

theorem tile_bounds_from_tile_sizes_witness:
  "get_bounds ex_ext ex_pipeline (''g'', 1)
     = Some [(''r'', ex_interval 0 0), (''x'', ex_interval 0 1023)]
   \<and> get_bounds_from_tile_sizes ex_ext ex_pipeline (''g'', 1) [(''x'', 64)]
     = Some [(''r'', ex_interval 0 0), (''x'', ex_interval 0 63)]
   \<and> (\<exists>tile_bounds.
         get_bounds_from_tile_sizes ex_ext ex_pipeline (''g'', 1) [(''x'', 64)]
           = Some tile_bounds
         \<and> fst ` set tile_bounds = var ` set (loop_dims (hd (updates ex_g)))
         \<and> (\<forall>d\<in>set (loop_dims (hd (updates ex_g))).
               map_of tile_bounds (var d) =
                 Some (let bound = the (map_of [(''r'', ex_interval 0 0),
                                                (''x'', ex_interval 0 1023)] (var d)) in
                       case map_of [(''x'', 64 :: int32)] (var d) of
                         Some sz \<Rightarrow>
                           if 2 * sint sz \<le> sint (get_extent ex_ext bound)
                           then \<lparr>min_e = IntImm 0, max_e = IntImm (sint sz - 1)\<rparr>
                           else bound
                       | None \<Rightarrow> bound)))"
proof -
  have h1: "get_element (env ex_pipeline) (fst (''g'', 1::nat)) = Some ex_g"
    by code_simp
  have h2: "get_stage_definition ex_g (snd (''g'', 1::nat)) = Some (hd (updates ex_g))"
    by code_simp
  have h3: "get_bounds ex_ext ex_pipeline (''g'', 1)
              = Some [(''r'', ex_interval 0 0), (''x'', ex_interval 0 1023)]"
    by code_simp
  have h4: "\<forall>d\<in>set (loop_dims (hd (updates ex_g))).
              map_of [(''r'', ex_interval 0 0), (''x'', ex_interval 0 1023)] (var d) \<noteq> None"
    by code_simp
  have h5: "\<forall>sz\<in>snd ` set [(''x'', 64 :: int32)]. - (2 ^ 30) \<le> sint sz \<and> sint sz < 2 ^ 30"
    by simp
  have e: "get_bounds_from_tile_sizes ex_ext ex_pipeline (''g'', 1) [(''x'', 64)]
             = Some [(''r'', ex_interval 0 0), (''x'', ex_interval 0 63)]"
    by code_simp
  note c = tile_bounds_from_tile_sizes [OF h1 h2 h3 h4 h5]
  show ?thesis by (rule conjI [OF h3 conjI [OF e c]])
qed

subsection \<open>Redundant regions\<close>

lemma overlaps_loop_missing:
  assumes "reg \<in> set regions" "map_of regions_shifted (fst reg) = None"
  shows "overlaps_loop ext regions_shifted regions overlaps = None"
  using assms
  by (induction regions arbitrary: overlaps)
     (auto simp: iter_is_regions_end_def Let_def split: option.splits)

lemma redundant_regions_missing:
  assumes "regions_required ext f s bounds prods only = Some regions"
      and "regions_required ext f s (shift_bounds v bounds []) prods only = Some regions_shifted"
      and "reg \<in> set regions" "map_of regions_shifted (fst reg) = None"
  shows "redundant_regions ext f s v bounds prods only = None"
  using assms by (simp add: redundant_regions_def overlaps_loop_missing)

lemma overlaps_loop_present:
  assumes "sorted (map fst (overlaps @ regions))" "distinct (map fst (overlaps @ regions))"
      and "\<forall>reg\<in>set regions. \<exists>b. map_of regions_shifted (fst reg) = Some b
              \<and> length b = length (snd reg)"
  shows "overlaps_loop ext regions_shifted regions overlaps =
           Some (overlaps @
                   map (\<lambda>reg. (fst reg, map2 (make_intersection ext) (snd reg)
                                          (the (map_of regions_shifted (fst reg))))) regions)"
  using assms
proof (induction regions arbitrary: overlaps)
  case Nil
  then show ?case by simp
next
  case (Cons reg regions)
  from Cons.prems(3) obtain b where
    b: "map_of regions_shifted (fst reg) = Some b" "length b = length (snd reg)" by auto
  have notin: "fst reg \<notin> fst ` set overlaps" using Cons.prems(2) by auto
  have "\<forall>k'\<in>set (map fst overlaps). k' \<le> fst reg"
    using Cons.prems(1) by (simp add: sorted_append)
  then have less: "\<forall>k'\<in>fst ` set overlaps. k' < fst reg"
    using notin by (metis image_set le_less)
  let ?new = "(fst reg, map2 (make_intersection ext) (snd reg) b)"
  have emp: "map_emplace (fst reg) (snd ?new) overlaps = overlaps @ [?new]"
    using notin less by (simp add: map_emplace_def map_of_eq_None_fst map_assign_append)
  have step: "overlaps_loop ext regions_shifted (reg # regions) overlaps =
                overlaps_loop ext regions_shifted regions (overlaps @ [?new])"
    using b notin emp
    by (simp add: iter_is_regions_end_def Let_def map_of_eq_None_fst)
  have "overlaps_loop ext regions_shifted regions (overlaps @ [?new]) =
          Some ((overlaps @ [?new]) @
                   map (\<lambda>reg. (fst reg, map2 (make_intersection ext) (snd reg)
                                          (the (map_of regions_shifted (fst reg))))) regions)"
    using Cons.prems by (intro Cons.IH) auto
  then show ?case unfolding step using b by simp
qed

text \<open>
  The part of the claim that holds: when every producer of the query at \<open>bounds\<close> is
  also a producer of the query at the shifted bounds, with a box of the same rank, the
  result holds for each of them the simplified intersection of the two boxes,
  dimension by dimension.
\<close>

lemma redundant_regions_intersection:
  assumes "regions_required ext f s bounds prods only = Some regions"
      and "regions_required ext f s (shift_bounds v bounds []) prods only = Some regions_shifted"
      and "sorted (map fst regions)" "distinct (map fst regions)"
      and "\<forall>reg\<in>set regions. \<exists>b. map_of regions_shifted (fst reg) = Some b
              \<and> length b = length (snd reg)"
  shows "redundant_regions ext f s v bounds prods only =
           Some (map (\<lambda>reg. (fst reg,
                             simplify_box ext
                               (map2 (make_intersection ext) (snd reg)
                                  (the (map_of regions_shifted (fst reg))))))
                   regions)"
  using assms overlaps_loop_present [of "[]" regions regions_shifted ext]
  by (simp add: redundant_regions_def comp_def)

lemma shift_bounds_var:
  "shift_bounds ''x'' [(''x'', \<lparr>min_e = lo, max_e = hi\<rparr>)] [] =
     [(''x'', \<lparr>min_e = Add lo (Add (Sub hi lo) (IntImm 1)),
               max_e = Add hi (Add (Sub hi lo) (IntImm 1))\<rparr>)]"
  by (simp add: Let_def)


subsection \<open>Vectorizing a stage\<close>

lemma sint_max_int32: "sint (max_int32 a b) = max (sint a) (sint b)"
  by (simp add: max_int32_def word_sless_alt max_def)

lemma sint_fold_max_int32:
  "sint (fold (\<lambda>t v. max_int32 v (g t)) ts v0) = Max (insert (sint v0) (sint ` g ` set ts))"
proof (induction ts arbitrary: v0)
  case Nil
  then show ?case by simp
next
  case (Cons t ts)
  have fin: "finite (sint ` g ` set ts)" by simp
  have "sint (fold (\<lambda>t v. max_int32 v (g t)) (t # ts) v0)
          = Max (insert (max (sint v0) (sint (g t))) (sint ` g ` set ts))"
    by (simp add: Cons.IH sint_max_int32)
  also have "\<dots> = Max (insert (sint v0) (insert (sint (g t)) (sint ` g ` set ts)))"
  proof (cases "sint ` g ` set ts = {}")
    case True
    then show ?thesis by simp
  next
    case False
    then show ?thesis using fin by (simp add: max.assoc)
  qed
  finally show ?case by simp
qed

lemma sint_vec_len:
  "sint (vec_len ext func) =
     Max (insert 0 (sint ` natural_vector_size ext ` set (output_types func)))"
  using sint_fold_max_int32 [of "natural_vector_size ext" "output_types func" 0]
  by (simp add: vec_len_def)

lemma sint_scast_vec_len: "sint (scast (v :: int32) :: int64) = sint v"
  by (rule sint_up_scast) (simp add: is_up)

lemma find_vec_dim_Some:
  assumes "find_vec_dim ext def func em dms d0 = Some d"
  shows "d0 \<le> d \<and> d - d0 < length dms \<and>
         (\<exists>est. map_of (stg_estimates em) (get_base_name (var (dms ! (d - d0)))) = Some est
                \<and> est \<noteq> unknown ext \<and> sint (vec_len ext func) \<le> sint est) \<and>
         (get_base_name (var (dms ! (d - d0))) \<in> set (rvars em) \<longrightarrow>
            can_parallelize_rvar ext (get_base_name (var (dms ! (d - d0)))) (name func) def)"
  using assms
proof (induction dms arbitrary: d0)
  case Nil
  then show ?case by simp
next
  case (Cons dm dms)
  show ?case
  proof (cases "find_vec_dim ext def func em (dm # dms) d0 = Some d0
                \<and> (\<exists>est. map_of (stg_estimates em) (get_base_name (var dm)) = Some est
                       \<and> est \<noteq> unknown ext \<and> sint (vec_len ext func) \<le> sint est)
                \<and> (get_base_name (var dm) \<in> set (rvars em) \<longrightarrow>
                      can_parallelize_rvar ext (get_base_name (var dm)) (name func) def)")
    case True
    with Cons.prems show ?thesis by auto
  next
    case False
    with Cons.prems have rec: "find_vec_dim ext def func em dms (Suc d0) = Some d"
      by (auto simp: Let_def word_sle_eq sint_scast_vec_len split: option.splits if_splits)
    from Cons.IH [OF rec] have
      le: "Suc d0 \<le> d" and lt: "d - Suc d0 < length dms" and
      rest: "(\<exists>est. map_of (stg_estimates em) (get_base_name (var (dms ! (d - Suc d0)))) = Some est
                \<and> est \<noteq> unknown ext \<and> sint (vec_len ext func) \<le> sint est) \<and>
         (get_base_name (var (dms ! (d - Suc d0))) \<in> set (rvars em) \<longrightarrow>
            can_parallelize_rvar ext (get_base_name (var (dms ! (d - Suc d0)))) (name func) def)"
      by auto
    from le have "d - d0 = Suc (d - Suc d0)" by simp
    then have nth: "(dm # dms) ! (d - d0) = dms ! (d - Suc d0)" by simp
    from le lt have "d0 \<le> d" "d - d0 < length (dm # dms)" by auto
    with rest nth show ?thesis by simp
  qed
qed

lemma split_dim_known:
  assumes "map_of (stg_estimates em) arg_name = Some est" "est \<noteq> unknown ext"
  shows "\<exists>em'. split_dim ext f_handle arg_name factor in_suffix out_suffix em
                 = Some ((arg_name @ in_suffix, arg_name @ out_suffix), em')
               \<and> applied em' = applied em
                    @ [Split (stage_name f_handle) arg_name (arg_name @ out_suffix)
                         (arg_name @ in_suffix) factor]
               \<and> rvars em' = rvars em \<and> warnings em' = warnings em"
  using assms by (simp add: split_dim_def Let_def)

text \<open>
  C7, amended. When \<open>vectorize_stage\<close> finds a dimension, the split factor is the
  largest natural vector size over the output types of the function (not the natural
  vector size of the widest type); the dimension has a known estimate that is at least
  that factor and, if it is in the set of reduction variables, it can be parallelized;
  the stage is split by the factor into \<open>v_vo\<close> and \<open>v_vi\<close>, the inner variable \<open>v_vi\<close> is
  vectorized, and for a reduction variable the set holds both new names in place of
  the old one. When no dimension qualifies nothing changes.
\<close>

theorem vectorize_stage_split:
  "sint (vec_len ext func) =
     Max (insert 0 (sint ` natural_vector_size ext ` set (output_types func)))
   \<and> (case find_vec_dim ext def func em (butlast (stage_dims f_handle)) 0 of
        None \<Rightarrow> vectorize_stage ext f_handle def func em = Some em
      | Some d \<Rightarrow>
          (let v = get_base_name (var (stage_dims f_handle ! d)) in
           d < length (stage_dims f_handle) - 1
           \<and> (\<exists>est. map_of (stg_estimates em) v = Some est \<and> est \<noteq> unknown ext
                    \<and> sint (vec_len ext func) \<le> sint est)
           \<and> (v \<in> set (rvars em) \<longrightarrow> can_parallelize_rvar ext v (name func) def)
           \<and> (\<exists>em'. vectorize_stage ext f_handle def func em = Some em'
                 \<and> applied em' = applied em
                      @ [Split (stage_name f_handle) v (v @ ''_vo'') (v @ ''_vi'')
                           (vec_len ext func),
                         Vectorize (stage_name f_handle) (v @ ''_vi'')]
                 \<and> set (rvars em') =
                      (if v \<in> set (rvars em)
                       then insert (v @ ''_vi'') (insert (v @ ''_vo'') (set (rvars em) - {v}))
                       else set (rvars em)))))"
proof (rule conjI)
  show "sint (vec_len ext func) =
     Max (insert 0 (sint ` natural_vector_size ext ` set (output_types func)))"
    by (rule sint_vec_len)
next
  show "case find_vec_dim ext def func em (butlast (stage_dims f_handle)) 0 of
        None \<Rightarrow> vectorize_stage ext f_handle def func em = Some em
      | Some d \<Rightarrow>
          (let v = get_base_name (var (stage_dims f_handle ! d)) in
           d < length (stage_dims f_handle) - 1
           \<and> (\<exists>est. map_of (stg_estimates em) v = Some est \<and> est \<noteq> unknown ext
                    \<and> sint (vec_len ext func) \<le> sint est)
           \<and> (v \<in> set (rvars em) \<longrightarrow> can_parallelize_rvar ext v (name func) def)
           \<and> (\<exists>em'. vectorize_stage ext f_handle def func em = Some em'
                 \<and> applied em' = applied em
                      @ [Split (stage_name f_handle) v (v @ ''_vo'') (v @ ''_vi'')
                           (vec_len ext func),
                         Vectorize (stage_name f_handle) (v @ ''_vi'')]
                 \<and> set (rvars em') =
                      (if v \<in> set (rvars em)
                       then insert (v @ ''_vi'') (insert (v @ ''_vo'') (set (rvars em) - {v}))
                       else set (rvars em))))"
  proof (cases "find_vec_dim ext def func em (butlast (stage_dims f_handle)) 0")
    case None
    then show ?thesis by (simp add: vectorize_stage_def)
  next
    case (Some d)
    define v where "v = get_base_name (var (stage_dims f_handle ! d))"
    from find_vec_dim_Some [OF Some] have
      lt: "d < length (butlast (stage_dims f_handle))" and
      est: "\<exists>est. map_of (stg_estimates em)
                    (get_base_name (var (butlast (stage_dims f_handle) ! d))) = Some est
                \<and> est \<noteq> unknown ext \<and> sint (vec_len ext func) \<le> sint est" and
      par: "get_base_name (var (butlast (stage_dims f_handle) ! d)) \<in> set (rvars em) \<longrightarrow>
            can_parallelize_rvar ext
              (get_base_name (var (butlast (stage_dims f_handle) ! d))) (name func) def"
      by auto
    from lt have nth: "butlast (stage_dims f_handle) ! d = stage_dims f_handle ! d"
      by (simp add: nth_butlast)
    from est nth obtain e where
      e: "map_of (stg_estimates em) v = Some e" "e \<noteq> unknown ext"
         "sint (vec_len ext func) \<le> sint e"
      by (auto simp: v_def)
    from split_dim_known [OF e(1,2), of f_handle "vec_len ext func" "''_vi''" "''_vo''"]
    obtain em1 where
      s: "split_dim ext f_handle v (vec_len ext func) ''_vi'' ''_vo'' em
            = Some ((v @ ''_vi'', v @ ''_vo''), em1)" and
      a: "applied em1 = applied em
            @ [Split (stage_name f_handle) v (v @ ''_vo'') (v @ ''_vi'') (vec_len ext func)]" and
      r: "rvars em1 = rvars em"
      by blast
    have "\<exists>em'. vectorize_stage ext f_handle def func em = Some em'
                 \<and> applied em' = applied em
                      @ [Split (stage_name f_handle) v (v @ ''_vo'') (v @ ''_vi'')
                           (vec_len ext func),
                         Vectorize (stage_name f_handle) (v @ ''_vi'')]
                 \<and> set (rvars em') =
                      (if v \<in> set (rvars em)
                       then insert (v @ ''_vi'') (insert (v @ ''_vo'') (set (rvars em) - {v}))
                       else set (rvars em))"
      using Some s a r
      by (auto simp: vectorize_stage_def Let_def v_def [symmetric] set_set_insert set_set_erase)
    moreover have "d < length (stage_dims f_handle) - 1" using lt by simp
    moreover have "v \<in> set (rvars em) \<longrightarrow> can_parallelize_rvar ext v (name func) def"
      using par nth by (simp add: v_def)
    ultimately show ?thesis
      using Some e by (simp add: Let_def v_def [symmetric])
  qed
qed

theorem vectorize_stage_split_witness:
  "find_vec_dim ex_ext (definition_f ex_tuple) ex_tuple ex_emitter_rvar
       (butlast (stage_dims ex_handle)) 0 = Some 0
   \<and> get_base_name (var (stage_dims ex_handle ! 0)) = ''x''
   \<and> ''x'' \<in> set (rvars ex_emitter_rvar)
   \<and> can_parallelize_rvar ex_ext ''x'' (name ex_tuple) (definition_f ex_tuple)
   \<and> sint (vec_len ex_ext ex_tuple) = 16
   \<and> map_option (\<lambda>em. (applied em, rvars em))
        (vectorize_stage ex_ext ex_handle (definition_f ex_tuple) ex_tuple ex_emitter_rvar)
      = Some ([Split ''h'' ''x'' ''x_vo'' ''x_vi'' 16, Vectorize ''h'' ''x_vi''],
              [''x_vi'', ''x_vo''])"
proof -
  have f: "find_vec_dim ex_ext (definition_f ex_tuple) ex_tuple ex_emitter_rvar
             (butlast (stage_dims ex_handle)) 0 = Some 0"
    by code_simp
  have v: "get_base_name (var (stage_dims ex_handle ! 0)) = ''x''"
    by code_simp
  have m: "''x'' \<in> set (rvars ex_emitter_rvar)"
    by code_simp
  have l: "sint (vec_len ex_ext ex_tuple) = 16"
    by code_simp
  have r: "map_option (\<lambda>em. (applied em, rvars em))
        (vectorize_stage ex_ext ex_handle (definition_f ex_tuple) ex_tuple ex_emitter_rvar)
      = Some ([Split ''h'' ''x'' ''x_vo'' ''x_vi'' 16, Vectorize ''h'' ''x_vi''],
              [''x_vi'', ''x_vo''])"
    by code_simp
  from vectorize_stage_split
         [where ext = ex_ext and func = ex_tuple and def = "definition_f ex_tuple"
            and em = ex_emitter_rvar and f_handle = ex_handle] f v m
  have c: "can_parallelize_rvar ex_ext ''x'' (name ex_tuple) (definition_f ex_tuple)"
    by (simp add: Let_def)
  show ?thesis
    by (rule conjI [OF f conjI [OF v conjI [OF m conjI [OF c conjI [OF l r]]]]])
qed

text \<open>
  C7 as stated fails for a function with an 8-bit and a 32-bit output on a target with
  128-bit vectors: the widest output type has 32 bits and a natural vector size of 4,
  and the stage is split by 16, the natural vector size of the 8-bit type.
\<close>

theorem vectorize_stage_widest_type_counterexample:
  "bits (widest_output_type ex_tuple) = 32
   \<and> natural_vector_size ex_ext (widest_output_type ex_tuple) = 4
   \<and> vec_len ex_ext ex_tuple = 16
   \<and> map_option applied
        (vectorize_stage ex_ext ex_handle (definition_f ex_tuple) ex_tuple ex_emitter)
      = Some [Split ''h'' ''x'' ''x_vo'' ''x_vi'' 16, Vectorize ''h'' ''x_vi'']"
  by code_simp

subsection \<open>The memory cost of a tile\<close>

text \<open>
  C10. Whenever \<open>analyze_group\<close> returns an analysis other than the all-unknown one, it
  has run to its end: the memory cost of a tile that the loop over the load costs
  computed is strictly positive, as the assertion in front of the final return
  demands, and the memory cost of the group is that cost times the number of tiles.
  When the analysis reaches the loop with an empty map of combined load costs, the
  cost of a tile stays 0 and the assertion ends the run.
\<close>

theorem analyze_group_memory_positive:
  "(analyze_group ext p g = Some a \<longrightarrow> a \<noteq> unknown_analysis ext \<longrightarrow>
      (\<exists>t mem. analyze_group_loads ext p g = Some (Some t)
         \<and> per_tile_memory ext p g t = Some (Some mem)
         \<and> 0 <s mem
         \<and> memory (cost a) = mem * estimate_tiles t))
   \<and> (analyze_group_loads ext p g = Some (Some t) \<longrightarrow> group_load_costs t = [] \<longrightarrow>
        analyze_group ext p g = None)"
proof (intro conjI impI)
  assume a: "analyze_group ext p g = Some a" and k: "a \<noteq> unknown_analysis ext"
  from a k obtain t where t: "analyze_group_loads ext p g = Some (Some t)"
    by (auto simp: analyze_group_def split: option.splits)
  from a k t obtain mem where m: "per_tile_memory ext p g t = Some (Some mem)"
    by (auto simp: analyze_group_def split: option.splits)
  from a t m have "0 <s mem" "memory (cost a) = mem * estimate_tiles t"
    by (auto simp: analyze_group_def Let_def split: if_splits)
  with t m show "\<exists>t mem. analyze_group_loads ext p g = Some (Some t)
         \<and> per_tile_memory ext p g t = Some (Some mem)
         \<and> 0 <s mem
         \<and> memory (cost a) = mem * estimate_tiles t"
    by blast
next
  assume "analyze_group_loads ext p g = Some (Some t)" "group_load_costs t = []"
  then show "analyze_group ext p g = None"
    by (simp add: analyze_group_def per_tile_memory_def)
qed

theorem analyze_group_memory_positive_witness:
  "analyze_group ex_ext ex_pipeline ex_group
     = Some \<lparr>cost = \<lparr>arith = 5120, memory = 16384\<rparr>, parallelism = 1\<rparr>
   \<and> \<lparr>cost = \<lparr>arith = 5120, memory = 16384\<rparr>, parallelism = 1\<rparr> \<noteq> unknown_analysis ex_ext
   \<and> (\<exists>t mem. analyze_group_loads ex_ext ex_pipeline ex_group = Some (Some t)
         \<and> per_tile_memory ex_ext ex_pipeline ex_group t = Some (Some mem)
         \<and> 0 <s mem
         \<and> memory (cost \<lparr>cost = \<lparr>arith = 5120, memory = 16384\<rparr>, parallelism = 1\<rparr>)
             = mem * estimate_tiles t)
   \<and> analyze_group_loads ex_ext_no_loads ex_pipeline ex_group
       = Some (Some (the (the (analyze_group_loads ex_ext_no_loads ex_pipeline ex_group))))
   \<and> group_load_costs (the (the (analyze_group_loads ex_ext_no_loads ex_pipeline ex_group)))
       = []
   \<and> analyze_group ex_ext_no_loads ex_pipeline ex_group = None"
proof -
  have a1: "analyze_group ex_ext ex_pipeline ex_group
              = Some \<lparr>cost = \<lparr>arith = 5120, memory = 16384\<rparr>, parallelism = 1\<rparr>"
    by code_simp
  have a2: "\<lparr>cost = \<lparr>arith = 5120, memory = 16384\<rparr>, parallelism = 1\<rparr>
              \<noteq> unknown_analysis ex_ext"
    by code_simp
  have b1: "analyze_group_loads ex_ext_no_loads ex_pipeline ex_group
       = Some (Some (the (the (analyze_group_loads ex_ext_no_loads ex_pipeline ex_group))))"
    by code_simp
  have b2: "group_load_costs
              (the (the (analyze_group_loads ex_ext_no_loads ex_pipeline ex_group))) = []"
    by code_simp
  note c1 = analyze_group_memory_positive [THEN conjunct1, rule_format, OF a1 a2]
  note c2 = analyze_group_memory_positive [THEN conjunct2, rule_format, OF b1 b2]
  show ?thesis
    by (rule conjI [OF a1 conjI [OF a2 conjI [OF c1 conjI [OF b1 conjI [OF b2 c2]]]]])
qed

subsection \<open>The cost of the pipeline across a merge\<close>

lemma pipeline_cost_loop_sum:
  assumes "pipeline_cost_loop costs gs c0 = Some c"
  shows "arith c + memory c =
           arith c0 + memory c0
           + sum_list (map (\<lambda>g. case map_of costs (fst g) of
                                   Some a \<Rightarrow> arith (cost a) + memory (cost a)
                                 | None \<Rightarrow> 0) gs)"
  using assms
proof (induction gs arbitrary: c0)
  case Nil
  then show ?case by simp
next
  case (Cons g gs)
  from Cons.prems obtain a where
    a: "map_of costs (fst g) = Some a" and
    r: "pipeline_cost_loop costs gs
          \<lparr>arith = arith c0 + arith (cost a), memory = memory c0 + memory (cost a)\<rparr> = Some c"
    by (auto simp: get_element_def bind_eq_Some_conv)
  from Cons.IH [OF r] a show ?case by simp
qed

lemma get_pipeline_cost_sum:
  "get_pipeline_cost st = Some c \<Longrightarrow> arith c + memory c = group_cost_sum st"
  using pipeline_cost_loop_sum [of "group_costs st" "groups st" "\<lparr>arith = 0, memory = 0\<rparr>" c]
  by (simp add: get_pipeline_cost_def group_cost_sum_def split: if_splits)

lemma group_iteration_merged:
  assumes "group_iteration ext p level st = Some (False, st')"
  shows "\<exists>pre post. get_pipeline_cost st = Some pre \<and> get_pipeline_cost st' = Some post
           \<and> arith post + memory post \<le>s arith pre + memory pre"
proof -
  from assms obtain pre where pre: "get_pipeline_cost st = Some pre"
    by (auto simp: group_iteration_def bind_eq_Some_conv)
  from assms pre obtain post where
    "get_pipeline_cost st' = Some post"
    "arith post + memory post \<le>s arith pre + memory pre"
    by (auto simp: group_iteration_def bind_eq_Some_conv Let_def split: if_splits)
  with pre show ?thesis by blast
qed

text \<open>
  C1. In the loop of \<open>Partitioner::group\<close>, an iteration that applies a merge and ends
  leaves the cost of the pipeline no larger than it was at the start of the
  iteration: the assertion at the end of the iteration compares the two results of
  \<open>get_pipeline_cost\<close>, and their arithmetic plus memory cost is the sum over all
  groups of the arithmetic plus memory cost of the group.
\<close>

theorem merge_does_not_increase_cost:
  assumes "group_iteration ext p level st = Some (False, st')"
  shows "(\<exists>pre post. get_pipeline_cost st = Some pre \<and> get_pipeline_cost st' = Some post
            \<and> arith post + memory post \<le>s arith pre + memory pre)
         \<and> group_cost_sum st' \<le>s group_cost_sum st"
proof -
  from group_iteration_merged [OF assms] obtain pre post where
    c: "get_pipeline_cost st = Some pre" "get_pipeline_cost st' = Some post"
       "arith post + memory post \<le>s arith pre + memory pre"
    by blast
  from c have "group_cost_sum st' \<le>s group_cost_sum st"
    by (simp add: get_pipeline_cost_sum [symmetric])
  with c show ?thesis by blast
qed

theorem merge_does_not_increase_cost_witness:
  "group_iteration ex_ext ex_pipeline INLINE ex_initial = Some (False, ex_inlined)
   \<and> group_cost_sum ex_initial = 53248
   \<and> group_cost_sum ex_inlined = 36864
   \<and> (\<exists>pre post. get_pipeline_cost ex_initial = Some pre
         \<and> get_pipeline_cost ex_inlined = Some post
         \<and> arith post + memory post \<le>s arith pre + memory pre)
   \<and> group_cost_sum ex_inlined \<le>s group_cost_sum ex_initial"
proof -
  have h: "group_iteration ex_ext ex_pipeline INLINE ex_initial = Some (False, ex_inlined)"
    by code_simp
  have s1: "group_cost_sum ex_initial = 53248"
    by code_simp
  have s2: "group_cost_sum ex_inlined = 36864"
    by code_simp
  note c = merge_does_not_increase_cost [OF h]
  show ?thesis
    by (rule conjI [OF h conjI [OF s1 conjI [OF s2 c]]])
qed

subsection \<open>Missing estimates\<close>

lemma set_schedule_defaults_root:
  "map fst (set_schedule_defaults e) = map fst e
   \<and> (\<forall>kv\<in>set (set_schedule_defaults e).
         store_level (definition_f (snd kv)) = Root
         \<and> compute_level (definition_f (snd kv)) = Root
         \<and> (\<forall>u\<in>set (updates (snd kv)). store_level u = Root \<and> compute_level u = Root))"
  by (auto simp: set_schedule_defaults_def root_levels_def comp_def)

lemma run_partitioner_warnings:
  "run_partitioner drv ext arch e outs = Some r \<Longrightarrow> user_warnings r = []"
  by (auto simp: run_partitioner_def bind_eq_Some_conv Let_def)

lemma generate_schedules_proceeds:
  assumes "validate_env (build_env drv outs) = Some ()"
      and "check_estimates_on_outputs outs"
  shows "generate_schedules drv ext arch outs
           = run_partitioner drv ext arch (build_env drv outs) outs"
  using assms by (simp add: generate_schedules_def Let_def)

text \<open>
  C2 fails on the code for an output that has as many estimates as pure arguments
  while one of its dimensions has none. The output below has the arguments \<open>x\<close> and
  \<open>y\<close> and two estimates for \<open>x\<close>: the check counts the estimates, accepts the output,
  and \<open>generate_schedules\<close> runs the partitioner instead of warning and putting every
  stage at root.
\<close>

theorem missing_estimate_not_detected:
  "args ex_two_dims = [''x'', ''y'']
   \<and> map var_b (estimates ex_two_dims) = [''x'', ''x'']
   \<and> validate_env (build_env ex_driver [ex_two_dims]) = Some ()
   \<and> check_estimates_on_outputs [ex_two_dims]
   \<and> generate_schedules ex_driver ex_ext ex_arch [ex_two_dims]
       = run_partitioner ex_driver ex_ext ex_arch (build_env ex_driver [ex_two_dims])
           [ex_two_dims]
   \<and> generate_schedules ex_driver ex_ext ex_arch [ex_two_dims]
       \<noteq> Some \<lparr>transcript = [],
                scheduled = set_schedule_defaults (build_env ex_driver [ex_two_dims]),
                user_warnings = [estimates_warning]\<rparr>"
proof -
  have a: "args ex_two_dims = [''x'', ''y'']"
    by code_simp
  have b: "map var_b (estimates ex_two_dims) = [''x'', ''x'']"
    by code_simp
  have v: "validate_env (build_env ex_driver [ex_two_dims]) = Some ()"
    by code_simp
  have c: "check_estimates_on_outputs [ex_two_dims]"
    by code_simp
  note g = generate_schedules_proceeds [OF v c, of ex_ext ex_arch]
  have n: "generate_schedules ex_driver ex_ext ex_arch [ex_two_dims]
       \<noteq> Some \<lparr>transcript = [],
                scheduled = set_schedule_defaults (build_env ex_driver [ex_two_dims]),
                user_warnings = [estimates_warning]\<rparr>"
  proof
    assume "generate_schedules ex_driver ex_ext ex_arch [ex_two_dims]
       = Some \<lparr>transcript = [],
                scheduled = set_schedule_defaults (build_env ex_driver [ex_two_dims]),
                user_warnings = [estimates_warning]\<rparr>"
    with g have "run_partitioner ex_driver ex_ext ex_arch (build_env ex_driver [ex_two_dims])
                   [ex_two_dims]
       = Some \<lparr>transcript = [],
                scheduled = set_schedule_defaults (build_env ex_driver [ex_two_dims]),
                user_warnings = [estimates_warning]\<rparr>"
      by simp
    from run_partitioner_warnings [OF this] show False by simp
  qed
  show ?thesis
    by (rule conjI [OF a conjI [OF b conjI [OF v conjI [OF c conjI [OF g n]]]]])
qed

subsection \<open>The best tile configuration\<close>

lemma sint_sub_in_range:
  fixes a b :: int64
  assumes "0 \<le> sint a" "sint a < 2 ^ 61" "0 \<le> sint b" "sint b < 2 ^ 61"
  shows "sint (a - b) = sint a - sint b"
proof -
  have "sint (a - b) = signed_take_bit 63 (sint a - sint b)"
    by (simp add: sint_word_ariths)
  also have "\<dots> = sint a - sint b"
    using assms by (intro signed_take_bit_int_eq_self) simp_all
  finally show ?thesis .
qed

lemma sint_benefit_in_range:
  fixes oa na om nm :: int64
  assumes "0 \<le> sint oa" "sint oa < 2 ^ 61" "0 \<le> sint na" "sint na < 2 ^ 61"
      and "0 \<le> sint om" "sint om < 2 ^ 61" "0 \<le> sint nm" "sint nm < 2 ^ 61"
  shows "sint ((om - nm) + (oa - na)) = (sint oa + sint om) - (sint na + sint nm)"
proof -
  have a: "sint (oa - na) = sint oa - sint na"
    using assms by (intro sint_sub_in_range)
  have m: "sint (om - nm) = sint om - sint nm"
    using assms by (intro sint_sub_in_range)
  have "sint ((om - nm) + (oa - na)) = signed_take_bit 63 (sint (om - nm) + sint (oa - na))"
    by (simp add: sint_word_ariths)
  also have "\<dots> = sint (om - nm) + sint (oa - na)"
    unfolding a m using assms by (intro signed_take_bit_int_eq_self) simp_all
  finally show ?thesis using a m by simp
qed

lemma estimate_benefit_unknown:
  "\<not> (known_cost ext old \<and> eligible ext arch new) \<Longrightarrow>
     estimate_benefit ext arch old new False True = unknown ext"
  by (auto simp: estimate_benefit_def eligible_def known_cost_def Let_def)

lemma estimate_benefit_known:
  assumes "known_cost ext old" "eligible ext arch new"
      and "cost_in_range ext old" "cost_in_range ext new"
  shows "sint (estimate_benefit ext arch old new False True) = total_cost old - total_cost new"
proof -
  from assms have
    r: "0 \<le> sint (arith (cost old))" "sint (arith (cost old)) < 2 ^ 61"
       "0 \<le> sint (arith (cost new))" "sint (arith (cost new)) < 2 ^ 61"
       "0 \<le> sint (memory (cost old))" "sint (memory (cost old)) < 2 ^ 61"
       "0 \<le> sint (memory (cost new))" "sint (memory (cost new)) < 2 ^ 61"
    by (auto simp: cost_in_range_def known_cost_def eligible_def)
  have "estimate_benefit ext arch old new False True =
          (memory (cost old) - memory (cost new)) + (arith (cost old) - arith (cost new))"
    using assms(1,2) by (simp add: estimate_benefit_def eligible_def known_cost_def Let_def)
  then show ?thesis
    using sint_benefit_in_range [OF r] by (simp add: total_cost_def)
qed

lemma positive_benefit_eligible:
  assumes "0 < sint (estimate_benefit ext arch old new False True)" "\<not> 0 <s unknown ext"
  shows "known_cost ext old \<and> eligible ext arch new"
proof (rule ccontr)
  assume "\<not> (known_cost ext old \<and> eligible ext arch new)"
  then have "estimate_benefit ext arch old new False True = unknown ext"
    by (rule estimate_benefit_unknown)
  with assms show False by (simp add: word_sless_alt)
qed

text \<open>
  Once a candidate with a positive benefit over the baseline is the running best, a
  later candidate beats it exactly when its benefit over the baseline is larger.
\<close>

lemma running_best_consistent:
  assumes pos: "0 < sint (estimate_benefit ext arch base a False True)"
      and unk: "\<not> 0 <s unknown ext"
      and rb: "cost_in_range ext base" and ra: "cost_in_range ext a"
      and ra': "cost_in_range ext a'"
  shows "0 <s estimate_benefit ext arch a a' False True \<longleftrightarrow>
           sint (estimate_benefit ext arch base a False True)
             < sint (estimate_benefit ext arch base a' False True)"
proof -
  from positive_benefit_eligible [OF pos unk] have
    kb: "known_cost ext base" and ea: "eligible ext arch a" by auto
  from ea have ka: "known_cost ext a" by (simp add: eligible_def known_cost_def)
  have ba: "sint (estimate_benefit ext arch base a False True) = total_cost base - total_cost a"
    using kb ea rb ra by (rule estimate_benefit_known)
  show ?thesis
  proof (cases "eligible ext arch a'")
    case True
    have "sint (estimate_benefit ext arch a a' False True) = total_cost a - total_cost a'"
      using ka True ra ra' by (rule estimate_benefit_known)
    moreover have "sint (estimate_benefit ext arch base a' False True)
                     = total_cost base - total_cost a'"
      using kb True rb ra' by (rule estimate_benefit_known)
    ultimately show ?thesis using ba by (simp add: word_sless_alt)
  next
    case False
    then have u1: "estimate_benefit ext arch a a' False True = unknown ext"
      by (intro estimate_benefit_unknown) simp
    from False have u2: "estimate_benefit ext arch base a' False True = unknown ext"
      by (intro estimate_benefit_unknown) simp
    from unk have "sint (unknown ext) \<le> 0" by (simp add: word_sless_alt)
    with pos u1 u2 unk show ?thesis by simp
  qed
qed

lemma first_maximum_Cons_0:
  assumes "\<forall>c'\<in>set cs. B c' \<le> B c"
  shows "first_maximum B (c # cs) 0"
proof -
  have "\<forall>j<length (c # cs). B ((c # cs) ! j) \<le> B c"
  proof (intro allI impI)
    fix j assume "j < length (c # cs)"
    then show "B ((c # cs) ! j) \<le> B c" using assms by (cases j) auto
  qed
  then show ?thesis by (simp add: first_maximum_def)
qed

lemma first_maximum_Cons_Suc:
  assumes "first_maximum B cs i" "B c < B (cs ! i)"
  shows "first_maximum B (c # cs) (Suc i)"
proof -
  from assms(1) have
    i: "i < length cs" "\<forall>j<length cs. B (cs ! j) \<le> B (cs ! i)" "\<forall>j<i. B (cs ! j) < B (cs ! i)"
    by (auto simp: first_maximum_def)
  have le: "\<forall>j<length (c # cs). B ((c # cs) ! j) \<le> B ((c # cs) ! Suc i)"
  proof (intro allI impI)
    fix j assume "j < length (c # cs)"
    then show "B ((c # cs) ! j) \<le> B ((c # cs) ! Suc i)"
      using assms(2) i(2) by (cases j) auto
  qed
  have lt: "\<forall>j<Suc i. B ((c # cs) ! j) < B ((c # cs) ! Suc i)"
  proof (intro allI impI)
    fix j assume "j < Suc i"
    then show "B ((c # cs) ! j) < B ((c # cs) ! Suc i)"
      using assms(2) i(3) by (cases j) auto
  qed
  from i(1) le lt show ?thesis unfolding first_maximum_def by simp
qed

lemma if_else_intro: "\<not> P \<Longrightarrow> E \<Longrightarrow> (if P then A else E)"
  by simp

lemma if_then_intro: "P \<Longrightarrow> A \<Longrightarrow> (if P then A else E)"
  by simp

lemma best_config_loop_first_max:
  fixes B :: "(string \<times> int32) list \<Rightarrow> int"
  assumes "\<forall>c\<in>set cs. analyze_group ext p (g\<lparr>tile_sizes := c\<rparr>) = Some (an c)"
      and "\<forall>c\<in>set cs. 0 <s estimate_benefit ext (arch_params p) ba (an c) False True
                          \<longleftrightarrow> sb < B c"
      and "\<forall>c\<in>set cs. \<forall>c'\<in>set cs. sb < B c \<longrightarrow>
             (0 <s estimate_benefit ext (arch_params p) (an c) (an c') False True
                \<longleftrightarrow> B c < B c')"
  shows "\<exists>best. best_config_loop ext p g cs (bc, ba) = Some best \<and>
           (if \<forall>c\<in>set cs. B c \<le> sb then best = (bc, ba)
            else \<exists>i. first_maximum B cs i \<and> sb < B (cs ! i)
                   \<and> best = (cs ! i, an (cs ! i)))"
  using assms
proof (induction cs arbitrary: bc ba sb)
  case Nil
  then show ?case by simp
next
  case (Cons c cs)
  have an_c: "analyze_group ext p (g\<lparr>tile_sizes := c\<rparr>) = Some (an c)"
    using Cons.prems(1) by simp
  have an_cs: "\<forall>c\<in>set cs. analyze_group ext p (g\<lparr>tile_sizes := c\<rparr>) = Some (an c)"
    using Cons.prems(1) by simp
  show ?case
  proof (cases "sb < B c")
    case True
    then have acc: "0 <s estimate_benefit ext (arch_params p) ba (an c) False True"
      using Cons.prems(2) by simp
    have step: "best_config_loop ext p g (c # cs) (bc, ba)
                  = best_config_loop ext p g cs (c, an c)"
      using an_c acc by simp
    have k0: "\<forall>c'\<in>set cs. 0 <s estimate_benefit ext (arch_params p) (an c) (an c') False True
                          \<longleftrightarrow> B c < B c'"
      using Cons.prems(3) True by simp
    have k: "\<forall>c1\<in>set cs. \<forall>c'\<in>set cs. B c < B c1 \<longrightarrow>
             (0 <s estimate_benefit ext (arch_params p) (an c1) (an c') False True
                \<longleftrightarrow> B c1 < B c')"
      using Cons.prems(3) True by auto
    from Cons.IH [OF an_cs k0 k, of c] obtain best where
      b: "best_config_loop ext p g cs (c, an c) = Some best" and
      r: "if \<forall>c'\<in>set cs. B c' \<le> B c then best = (c, an c)
          else \<exists>i. first_maximum B cs i \<and> B c < B (cs ! i) \<and> best = (cs ! i, an (cs ! i))"
      by blast
    have ex: "\<exists>i. first_maximum B (c # cs) i \<and> sb < B ((c # cs) ! i)
                \<and> best = ((c # cs) ! i, an ((c # cs) ! i))"
    proof (cases "\<forall>c'\<in>set cs. B c' \<le> B c")
      case all: True
      with r have best: "best = (c, an c)" by simp
      from first_maximum_Cons_0 [OF all] best True show ?thesis
        by (intro exI [of _ 0]) simp
    next
      case False
      with r obtain i where
        i: "first_maximum B cs i" "B c < B (cs ! i)" "best = (cs ! i, an (cs ! i))"
        by auto
      from first_maximum_Cons_Suc [OF i(1,2)] i(2,3) True show ?thesis
        by (intro exI [of _ "Suc i"]) simp
    qed
    have nall: "\<not> (\<forall>c'\<in>set (c # cs). B c' \<le> sb)" using True by auto
    have l: "best_config_loop ext p g (c # cs) (bc, ba) = Some best"
      unfolding step by (rule b)
    show ?thesis
      by (rule exI [of _ best], rule conjI [OF l], rule if_else_intro [OF nall ex])
  next
    case False
    then have rej: "\<not> 0 <s estimate_benefit ext (arch_params p) ba (an c) False True"
      using Cons.prems(2) by simp
    have step: "best_config_loop ext p g (c # cs) (bc, ba)
                  = best_config_loop ext p g cs (bc, ba)"
      using an_c rej by simp
    have k0: "\<forall>c'\<in>set cs. 0 <s estimate_benefit ext (arch_params p) ba (an c') False True
                          \<longleftrightarrow> sb < B c'"
      using Cons.prems(2) by simp
    have k: "\<forall>c1\<in>set cs. \<forall>c'\<in>set cs. sb < B c1 \<longrightarrow>
             (0 <s estimate_benefit ext (arch_params p) (an c1) (an c') False True
                \<longleftrightarrow> B c1 < B c')"
      using Cons.prems(3) by auto
    from Cons.IH [OF an_cs k0 k, of bc] obtain best where
      b: "best_config_loop ext p g cs (bc, ba) = Some best" and
      r: "if \<forall>c'\<in>set cs. B c' \<le> sb then best = (bc, ba)
          else \<exists>i. first_maximum B cs i \<and> sb < B (cs ! i) \<and> best = (cs ! i, an (cs ! i))"
      by blast
    have l: "best_config_loop ext p g (c # cs) (bc, ba) = Some best"
      unfolding step by (rule b)
    show ?thesis
    proof (cases "\<forall>c'\<in>set cs. B c' \<le> sb")
      case True
      with r have best: "best = (bc, ba)" by simp
      have all: "\<forall>c'\<in>set (c # cs). B c' \<le> sb" using True False by auto
      show ?thesis
        by (rule exI [of _ best], rule conjI [OF l], rule if_then_intro [OF all best])
    next
      case nall: False
      with r obtain i where
        i: "first_maximum B cs i" "sb < B (cs ! i)" "best = (cs ! i, an (cs ! i))"
        by auto
      from False i(2) have c_lt: "B c < B (cs ! i)" by simp
      have ex: "\<exists>i. first_maximum B (c # cs) i \<and> sb < B ((c # cs) ! i)
                  \<and> best = ((c # cs) ! i, an ((c # cs) ! i))"
        using first_maximum_Cons_Suc [OF i(1) c_lt] i(2,3)
        by (intro exI [of _ "Suc i"]) simp
      have n: "\<not> (\<forall>c'\<in>set (c # cs). B c' \<le> sb)" using nall by auto
      show ?thesis
        by (rule exI [of _ best], rule conjI [OF l], rule if_else_intro [OF n ex])
    qed
  qed
qed

text \<open>
  C6. \<open>find_best_tile_config\<close> starts from the analysis without tiles and walks the
  generated configurations in order. When no configuration has a positive benefit
  over the analysis without tiles (with \<open>no_redundant_work\<close> false and
  \<open>ensure_parallelism\<close> true) it returns the empty configuration with that analysis;
  otherwise it returns the first configuration whose benefit is largest, so of two
  configurations with the same benefit the earlier one is kept. The costs are assumed
  to lie in the range where the differences do not overflow, and \<open>unknown\<close> not to be
  positive.
\<close>

theorem find_best_tile_config_first_maximum:
  assumes f: "get_element (env p) (fst (output_stage g)) = Some out_f"
      and d: "get_stage_definition out_f (snd (output_stage g)) = Some def"
      and nt: "analyze_group ext p (g\<lparr>tile_sizes := []\<rparr>) \<noteq> None"
      and cs: "\<forall>c\<in>set (generate_tile_configs def).
                 analyze_group ext p (g\<lparr>tile_sizes := c\<rparr>) \<noteq> None"
      and rn: "cost_in_range ext (tile_analysis ext p g [])"
      and rc: "\<forall>c\<in>set (generate_tile_configs def). cost_in_range ext (tile_analysis ext p g c)"
      and unk: "\<not> 0 <s unknown ext"
  shows "\<exists>best. find_best_tile_config ext p g = Some best \<and>
           (if \<forall>c\<in>set (generate_tile_configs def). tile_benefit ext p g c \<le> 0
            then best = ([], tile_analysis ext p g [])
            else \<exists>i. first_maximum (tile_benefit ext p g) (generate_tile_configs def) i
                   \<and> 0 < tile_benefit ext p g (generate_tile_configs def ! i)
                   \<and> best = (generate_tile_configs def ! i,
                             tile_analysis ext p g (generate_tile_configs def ! i)))"
proof -
  let ?cs = "generate_tile_configs def"
  let ?nt = "tile_analysis ext p g []"
  have a_nt: "analyze_group ext p (g\<lparr>tile_sizes := []\<rparr>) = Some ?nt"
    using nt by (auto simp: tile_analysis_def)
  have a_cs: "\<forall>c\<in>set ?cs. analyze_group ext p (g\<lparr>tile_sizes := c\<rparr>)
                = Some (tile_analysis ext p g c)"
    using cs by (auto simp: tile_analysis_def)
  show ?thesis
  proof (cases "arith (cost ?nt) = unknown ext")
    case True
    have r: "find_best_tile_config ext p g = Some ([], ?nt)"
      using a_nt True by (simp add: find_best_tile_config_def)
    have "\<forall>c\<in>set ?cs. tile_benefit ext p g c \<le> 0"
    proof
      fix c assume "c \<in> set ?cs"
      have "estimate_benefit ext (arch_params p) ?nt (tile_analysis ext p g c) False True
              = unknown ext"
        using True by (intro estimate_benefit_unknown) (simp add: known_cost_def)
      with unk show "tile_benefit ext p g c \<le> 0"
        by (simp add: tile_benefit_def word_sless_alt)
    qed
    then show ?thesis
      by (intro exI [of _ "([], ?nt)"] conjI r if_then_intro) simp_all
  next
    case False
    have r: "find_best_tile_config ext p g = best_config_loop ext p g ?cs ([], ?nt)"
      using a_nt False f d by (simp add: find_best_tile_config_def)
    have k0: "\<forall>c\<in>set ?cs.
                0 <s estimate_benefit ext (arch_params p) ?nt (tile_analysis ext p g c) False True
                  \<longleftrightarrow> 0 < tile_benefit ext p g c"
      by (simp add: tile_benefit_def word_sless_alt)
    have k: "\<forall>c\<in>set ?cs. \<forall>c'\<in>set ?cs. 0 < tile_benefit ext p g c \<longrightarrow>
               (0 <s estimate_benefit ext (arch_params p) (tile_analysis ext p g c)
                       (tile_analysis ext p g c') False True
                  \<longleftrightarrow> tile_benefit ext p g c < tile_benefit ext p g c')"
    proof (intro ballI impI)
      fix c c' assume c: "c \<in> set ?cs" and c': "c' \<in> set ?cs"
         and pos: "0 < tile_benefit ext p g c"
      from pos have pos': "0 < sint (estimate_benefit ext (arch_params p) ?nt
                                       (tile_analysis ext p g c) False True)"
        by (simp add: tile_benefit_def)
      from rc c c' have "cost_in_range ext (tile_analysis ext p g c)"
        "cost_in_range ext (tile_analysis ext p g c')" by auto
      from running_best_consistent [OF pos' unk rn this]
      show "0 <s estimate_benefit ext (arch_params p) (tile_analysis ext p g c)
                   (tile_analysis ext p g c') False True
              \<longleftrightarrow> tile_benefit ext p g c < tile_benefit ext p g c'"
        by (simp add: tile_benefit_def)
    qed
    from best_config_loop_first_max [OF a_cs k0 k, of "[]"]
    show ?thesis unfolding r .
  qed
qed

theorem find_best_tile_config_first_maximum_witness:
  "generate_tile_configs (hd (updates ex_g)) = [[(''x'', 64)], [(''x'', 128)], [(''x'', 256)]]
   \<and> map (tile_benefit ex_ext ex_pipeline ex_merged)
        (generate_tile_configs (hd (updates ex_g))) = [8192, 8192, 0]
   \<and> find_best_tile_config ex_ext ex_pipeline ex_merged
       = Some ([(''x'', 64)], tile_analysis ex_ext ex_pipeline ex_merged [(''x'', 64)])
   \<and> (\<exists>best. find_best_tile_config ex_ext ex_pipeline ex_merged = Some best \<and>
           (if \<forall>c\<in>set (generate_tile_configs (hd (updates ex_g))).
                 tile_benefit ex_ext ex_pipeline ex_merged c \<le> 0
            then best = ([], tile_analysis ex_ext ex_pipeline ex_merged [])
            else \<exists>i. first_maximum (tile_benefit ex_ext ex_pipeline ex_merged)
                        (generate_tile_configs (hd (updates ex_g))) i
                   \<and> 0 < tile_benefit ex_ext ex_pipeline ex_merged
                           (generate_tile_configs (hd (updates ex_g)) ! i)
                   \<and> best = (generate_tile_configs (hd (updates ex_g)) ! i,
                             tile_analysis ex_ext ex_pipeline ex_merged
                               (generate_tile_configs (hd (updates ex_g)) ! i))))"
proof -
  have f: "get_element (env ex_pipeline) (fst (output_stage ex_merged)) = Some ex_g"
    by code_simp
  have d: "get_stage_definition ex_g (snd (output_stage ex_merged)) = Some (hd (updates ex_g))"
    by code_simp
  have nt: "analyze_group ex_ext ex_pipeline (ex_merged\<lparr>tile_sizes := []\<rparr>) \<noteq> None"
    by code_simp
  have cs: "\<forall>c\<in>set (generate_tile_configs (hd (updates ex_g))).
              analyze_group ex_ext ex_pipeline (ex_merged\<lparr>tile_sizes := c\<rparr>) \<noteq> None"
    by code_simp
  have rn: "cost_in_range ex_ext (tile_analysis ex_ext ex_pipeline ex_merged [])"
    by code_simp
  have rc: "\<forall>c\<in>set (generate_tile_configs (hd (updates ex_g))).
              cost_in_range ex_ext (tile_analysis ex_ext ex_pipeline ex_merged c)"
    by code_simp
  have unk: "\<not> 0 <s unknown ex_ext"
    by code_simp
  have g: "generate_tile_configs (hd (updates ex_g))
             = [[(''x'', 64)], [(''x'', 128)], [(''x'', 256)]]"
    by code_simp
  have b: "map (tile_benefit ex_ext ex_pipeline ex_merged)
             (generate_tile_configs (hd (updates ex_g))) = [8192, 8192, 0]"
    by code_simp
  have e: "find_best_tile_config ex_ext ex_pipeline ex_merged
             = Some ([(''x'', 64)], tile_analysis ex_ext ex_pipeline ex_merged [(''x'', 64)])"
    by code_simp
  note c = find_best_tile_config_first_maximum [OF f d nt cs rn rc unk]
  show ?thesis
    by (rule conjI [OF g conjI [OF b conjI [OF e c]]])
qed

subsection \<open>The keys of the tile sizes\<close>















































end
